theory Spec2Isabelle
  imports Complex_Main "HOL-Library.Signed_Division"
begin

section \<open>GDI grab device: data model\<close>

text \<open>
  A shallow embedding of \<^verbatim>\<open>libavdevice/gdigrab.c\<close>.  C integers (\<^verbatim>\<open>int\<close>,
  \<^verbatim>\<open>LONG\<close>, \<^verbatim>\<open>int64_t\<close>) are HOL integers; the quotient of two C integers is the
  truncating \<open>sdiv\<close>, and a division by zero is a fault of the model.  Handles
  (\<^verbatim>\<open>HWND\<close>, \<^verbatim>\<open>HDC\<close>, \<^verbatim>\<open>HBITMAP\<close>, pointers) are natural numbers, \<open>0\<close> being
  \<^verbatim>\<open>NULL\<close>.  What the operating system answers to each call is an explicit
  environment record handed to the function that makes the call.

  Every field and every answer of the system is taken to lie in the range of its C type.
  The sums and differences that the source forms from the caller's options and from the
  clip rectangle, in 32-bit \<^verbatim>\<open>int\<close> and \<^verbatim>\<open>LONG\<close>, are written with \<open>wrap32\<close>, and so
  is a product formed from such a difference: the options \<^verbatim>\<open>offset_x\<close> and
  \<^verbatim>\<open>offset_y\<close> range over all of \<^verbatim>\<open>int\<close>, so these results can leave the range.
  Arithmetic on values that the system alone supplies (screen coordinates, device
  resolutions) is left exact.
\<close>

type_synonym handle = nat

record RECT =
  rc_left :: int
  rc_top :: int
  rc_right :: int
  rc_bottom :: int

record RESOLUTION =
  res_x :: int
  res_y :: int

record MONITOR =
  logical :: RESOLUTION
  physical :: RESOLUTION
  mon_rect :: RECT

text \<open>
  The file-scope statics \<^verbatim>\<open>monitors[MY_MAX_MONITORS]\<close>, \<^verbatim>\<open>monitorsNum\<close> and
  \<^verbatim>\<open>rcCombined\<close>: one table for the whole process.
\<close>

record globals =
  monitors :: "MONITOR list"
  monitorsNum :: int
  rcCombined :: RECT

definition MY_MAX_MONITORS :: int where
  "MY_MAX_MONITORS = 4"

text \<open>
  Behaviour that C leaves undefined is a value of the model: an array access outside
  \<open>0 ..< MY_MAX_MONITORS\<close> (with the index used), an integer division by zero and a
  shift by a negative count.
\<close>

datatype fault = OutOfBounds int | DivByZero | ShiftCount int

definition monitor_at :: "globals \<Rightarrow> int \<Rightarrow> fault + MONITOR" where
  "monitor_at g i =
     (if 0 \<le> i \<and> i < MY_MAX_MONITORS then Inr (monitors g ! nat i)
      else Inl (OutOfBounds i))"

definition c_div :: "int \<Rightarrow> int \<Rightarrow> fault + int" where
  "c_div a b = (if b = 0 then Inl DivByZero else Inr (a sdiv b))"

text \<open>
  The value that a 32-bit \<^verbatim>\<open>int\<close> or \<^verbatim>\<open>LONG\<close> holds after an addition or a
  subtraction whose exact result is \<open>k\<close>: two's-complement wrap-around.
\<close>

definition wrap32 :: "int \<Rightarrow> int" where
  "wrap32 k = (k + 2147483648) mod 4294967296 - 2147483648"

text \<open>
  What the display subsystem reports for one attached monitor: the rectangle passed to
  the enumeration callback and the four device capabilities the callback queries.
\<close>

record display =
  lprcMonitor :: RECT
  HORZRES :: int
  VERTRES :: int
  DESKTOPHORZRES :: int
  DESKTOPVERTRES :: int

text \<open>
  \<^verbatim>\<open>SetRectEmpty\<close>, \<^verbatim>\<open>IsRectEmpty\<close> and \<^verbatim>\<open>UnionRect\<close> of the Windows API: the union is
  the smallest rectangle holding both, and an empty rectangle is ignored.
\<close>

definition SetRectEmpty :: RECT where
  "SetRectEmpty = \<lparr>rc_left = 0, rc_top = 0, rc_right = 0, rc_bottom = 0\<rparr>"

definition IsRectEmpty :: "RECT \<Rightarrow> bool" where
  "IsRectEmpty r = (rc_right r \<le> rc_left r \<or> rc_bottom r \<le> rc_top r)"

definition UnionRect :: "RECT \<Rightarrow> RECT \<Rightarrow> RECT" where
  "UnionRect a b =
     (if IsRectEmpty a then (if IsRectEmpty b then SetRectEmpty else b)
      else if IsRectEmpty b then a
      else \<lparr>rc_left = min (rc_left a) (rc_left b), rc_top = min (rc_top a) (rc_top b),
            rc_right = max (rc_right a) (rc_right b),
            rc_bottom = max (rc_bottom a) (rc_bottom b)\<rparr>)"

section \<open>Monitor registry\<close>

text \<open>
  \<^verbatim>\<open>monitor_enum\<close>: the callback stores the monitor (every field of the entry, which
  \<open>monitor_of\<close> collects) at index \<^verbatim>\<open>monitorsNum\<close> and increments the count.  The
  source has no test of the index; the test below is the array's declared size, and its
  failure is the fault.
\<close>

definition monitor_of :: "display \<Rightarrow> MONITOR" where
  "monitor_of d =
     \<lparr>logical = \<lparr>res_x = HORZRES d, res_y = VERTRES d\<rparr>,
      physical = \<lparr>res_x = DESKTOPHORZRES d, res_y = DESKTOPVERTRES d\<rparr>,
      mon_rect = lprcMonitor d\<rparr>"

definition monitor_enum :: "display \<Rightarrow> globals \<Rightarrow> fault + globals" where
  "monitor_enum d g =
     (let n = monitorsNum g in
      if 0 \<le> n \<and> n < MY_MAX_MONITORS then
        Inr (g\<lparr>monitors := (monitors g)[nat n := monitor_of d],
               rcCombined := UnionRect (rcCombined g) (lprcMonitor d),
               monitorsNum := n + 1\<rparr>)
      else Inl (OutOfBounds n))"

text \<open>
  \<^verbatim>\<open>EnumDisplayMonitors(0, 0, monitor_enum, 0)\<close>: the callback runs once per attached
  monitor, in the order the system reports them (the callback always returns TRUE).
\<close>

fun EnumDisplayMonitors :: "display list \<Rightarrow> globals \<Rightarrow> fault + globals" where
  "EnumDisplayMonitors [] g = Inr g"
| "EnumDisplayMonitors (d # ds) g =
     (case monitor_enum d g of
        Inl f \<Rightarrow> Inl f
      | Inr g' \<Rightarrow> EnumDisplayMonitors ds g')"

text \<open>
  The three lookups share one loop,
  \<^verbatim>\<open>for (int i = 0; i < monitorsNum; ++i) if (test(monitors[i])) return i; return -1;\<close>
  which \<open>scan_monitors\<close> runs from index \<open>i\<close> on.
\<close>

function scan_monitors :: "(MONITOR \<Rightarrow> bool) \<Rightarrow> globals \<Rightarrow> int \<Rightarrow> fault + int" where
  "scan_monitors P g i =
     (if i < monitorsNum g then
        (case monitor_at g i of
           Inl f \<Rightarrow> Inl f
         | Inr m \<Rightarrow> if P m then Inr i else scan_monitors P g (i + 1))
      else Inr (- 1))"
  by pat_completeness auto
termination
  by (relation "measure (\<lambda>(P, g, i). nat (monitorsNum g - i))") auto

declare scan_monitors.simps [simp del]

definition get_monitor_id_by_logical_point :: "globals \<Rightarrow> int \<Rightarrow> int \<Rightarrow> fault + int" where
  "get_monitor_id_by_logical_point g px py =
     scan_monitors
       (\<lambda>m. rc_left (mon_rect m) \<le> px \<and> px < rc_right (mon_rect m) \<and>
            rc_top (mon_rect m) \<le> py \<and> py < rc_bottom (mon_rect m)) g 0"

definition get_monitor_id_by_logical_rectangle :: "globals \<Rightarrow> RECT \<Rightarrow> fault + int" where
  "get_monitor_id_by_logical_rectangle g r =
     (let px = rc_left r + (rc_right r - rc_left r) sdiv 2;
          py = rc_top r + (rc_bottom r - rc_top r) sdiv 2
      in get_monitor_id_by_logical_point g px py)"

definition get_monitor_id_by_logical_x :: "globals \<Rightarrow> int \<Rightarrow> fault + int" where
  "get_monitor_id_by_logical_x g px =
     scan_monitors (\<lambda>m. rc_left (mon_rect m) \<le> px \<and> px < rc_right (mon_rect m)) g 0"

definition get_monitor_id_by_logical_y :: "globals \<Rightarrow> int \<Rightarrow> fault + int" where
  "get_monitor_id_by_logical_y g py =
     scan_monitors (\<lambda>m. rc_top (mon_rect m) \<le> py \<and> py < rc_bottom (mon_rect m)) g 0"

text \<open>The macros \<^verbatim>\<open>LOGICAL_TO_PHYSICAL_X\<close> and \<^verbatim>\<open>LOGICAL_TO_PHYSICAL_Y\<close>.\<close>

definition LOGICAL_TO_PHYSICAL_X :: "globals \<Rightarrow> int \<Rightarrow> int \<Rightarrow> fault + int" where
  "LOGICAL_TO_PHYSICAL_X g val i =
     (case monitor_at g i of
        Inl f \<Rightarrow> Inl f
      | Inr m \<Rightarrow> c_div (val * res_x (physical m)) (res_x (logical m)))"

definition LOGICAL_TO_PHYSICAL_Y :: "globals \<Rightarrow> int \<Rightarrow> int \<Rightarrow> fault + int" where
  "LOGICAL_TO_PHYSICAL_Y g val i =
     (case monitor_at g i of
        Inl f \<Rightarrow> Inl f
      | Inr m \<Rightarrow> c_div (val * res_y (physical m)) (res_y (logical m)))"

text \<open>
  The block that both corners of \<^verbatim>\<open>convert_logical_rect_to_physical\<close> run: the point
  lookup, and the two axis lookups when it finds nothing.  It yields the pair
  \<^verbatim>\<open>(indX, indY)\<close>.
\<close>

definition corner_indices :: "globals \<Rightarrow> int \<Rightarrow> int \<Rightarrow> fault + (int \<times> int)" where
  "corner_indices g px py =
     (case get_monitor_id_by_logical_point g px py of
        Inl f \<Rightarrow> Inl f
      | Inr ind \<Rightarrow>
          if ind \<ge> 0 then Inr (ind, ind)
          else (case get_monitor_id_by_logical_x g px of
                  Inl f \<Rightarrow> Inl f
                | Inr indX \<Rightarrow>
                    (case get_monitor_id_by_logical_y g py of
                       Inl f \<Rightarrow> Inl f
                     | Inr indY \<Rightarrow> Inr (indX, indY))))"

definition convert_logical_rect_to_physical :: "globals \<Rightarrow> RECT \<Rightarrow> fault + RECT" where
  "convert_logical_rect_to_physical g r =
     (case corner_indices g (rc_left r) (rc_top r) of
        Inl f \<Rightarrow> Inl f
      | Inr (indX, indY) \<Rightarrow>
     (case LOGICAL_TO_PHYSICAL_X g (rc_left r) indX of
        Inl f \<Rightarrow> Inl f
      | Inr l \<Rightarrow>
     (case LOGICAL_TO_PHYSICAL_Y g (rc_top r) indY of
        Inl f \<Rightarrow> Inl f
      | Inr t \<Rightarrow>
     (case corner_indices g (rc_right r - 1) (rc_bottom r - 1) of
        Inl f \<Rightarrow> Inl f
      | Inr (indX', indY') \<Rightarrow>
     (case LOGICAL_TO_PHYSICAL_X g (rc_right r) indX' of
        Inl f \<Rightarrow> Inl f
      | Inr rt \<Rightarrow>
     (case LOGICAL_TO_PHYSICAL_Y g (rc_bottom r) indY' of
        Inl f \<Rightarrow> Inl f
      | Inr b \<Rightarrow>
          Inr \<lparr>rc_left = l, rc_top = t, rc_right = rt, rc_bottom = b\<rparr>))))))"

section \<open>Session state and operating-system environment\<close>

record AVRational =
  q_num :: int
  q_den :: int

definition av_inv_q :: "AVRational \<Rightarrow> AVRational" where
  "av_inv_q q = \<lparr>q_num = q_den q, q_den = q_num q\<rparr>"

text \<open>
  The pacing arithmetic runs in \<^verbatim>\<open>double\<close>.  Its operations are a parameter of the
  model, over any carrier \<open>'d\<close>: the conversion \<^verbatim>\<open>av_q2d\<close>, the conversions between
  \<^verbatim>\<open>int64_t\<close> and \<^verbatim>\<open>double\<close>, product, quotient, difference and comparison.  Every
  theorem about the pacer holds for all such operations; \<open>exact_double\<close> is the
  instance without rounding, which agrees with IEEE doubles wherever every intermediate
  value is a small integer.
\<close>

record 'd fparith =
  av_q2d :: "AVRational \<Rightarrow> 'd"
  of_int64 :: "int \<Rightarrow> 'd"
  to_int64 :: "'d \<Rightarrow> int"
  fmul :: "'d \<Rightarrow> 'd \<Rightarrow> 'd"
  fdiv :: "'d \<Rightarrow> 'd \<Rightarrow> 'd"
  fsub :: "'d \<Rightarrow> 'd \<Rightarrow> 'd"
  fless :: "'d \<Rightarrow> 'd \<Rightarrow> bool"

definition exact_double :: "rat fparith" where
  "exact_double =
     \<lparr>av_q2d = (\<lambda>q. of_int (q_num q) / of_int (q_den q)),
      of_int64 = of_int,
      to_int64 = (\<lambda>d. if 0 \<le> d then \<lfloor>d\<rfloor> else \<lceil>d\<rceil>),
      fmul = (\<lambda>a b. a * b),
      fdiv = (\<lambda>a b. a / b),
      fsub = (\<lambda>a b. a - b),
      fless = (\<lambda>a b. a < b)\<rparr>"

record BITMAPINFOHEADER =
  biSize :: int
  biWidth :: int
  biHeight :: int
  biPlanes :: int
  biBitCount :: int
  biCompression :: int
  biSizeImage :: int
  biXPelsPerMeter :: int
  biYPelsPerMeter :: int
  biClrUsed :: int
  biClrImportant :: int

text \<open>\<^verbatim>\<open>struct gdigrab\<close>, field for field.\<close>

record gdigrab =
  frame_size :: int
  header_size :: int
  time_base :: AVRational
  time_frame :: int
  draw_mouse :: int
  show_region :: int
  framerate :: AVRational
  width :: int
  height :: int
  offset_x :: int
  offset_y :: int
  hwnd :: handle
  source_hdc :: handle
  dest_hdc :: handle
  bmi :: BITMAPINFOHEADER
  hbmp :: handle
  buffer :: handle
  clip_rect :: RECT
  region_hwnd :: handle
  cursor_error_printed :: int

text \<open>
  The calls a function makes on the operating system, in order: the trace by which
  acquisitions, releases and drawing are observed.  \<open>av_log\<close> records the error and
  warning messages (without their arguments).
\<close>

datatype os_call =
    GetDC handle
  | ReleaseDC handle handle
  | CreateCompatibleDC handle
  | CreateDIBSection handle
  | SelectObject handle handle
  | DeleteDC handle
  | DeleteObject handle
  | CreateWindowEx
  | DestroyWindow handle
  | DispatchMessage handle
  | BitBlt handle handle
  | CopyCursor handle
  | DestroyCursor handle
  | DrawIcon handle int int handle
  | av_log string

datatype averror = EIO | ENOMEM | EAGAIN

definition REGION_WND_BORDER :: int where
  "REGION_WND_BORDER = 3"

definition CURSOR_SHOWING :: int where
  "CURSOR_SHOWING = 1"

definition sizeof_BITMAPFILEHEADER :: int where
  "sizeof_BITMAPFILEHEADER = 14"

definition sizeof_BITMAPINFOHEADER :: int where
  "sizeof_BITMAPINFOHEADER = 40"

definition sizeof_RGBQUAD :: int where
  "sizeof_RGBQUAD = 4"

section \<open>Region outline window\<close>

text \<open>
  What the window system answers while the outline window is built.  The geometry of
  the window is the system's business and is not part of the session state; the model
  keeps the handles and the two points of failure.
\<close>

record region_env =
  env_CreateWindowEx :: handle
  env_CreateRectRgn_region :: handle
  env_CreateRectRgn_interior :: handle
  env_SetWindowRgn :: bool

definition gdigrab_region_wnd_init ::
    "region_env \<Rightarrow> gdigrab \<Rightarrow> int \<times> gdigrab \<times> os_call list" where
  "gdigrab_region_wnd_init env st =
     (let wnd = env_CreateWindowEx env in
      if wnd = 0 then
        (1, st, [CreateWindowEx, av_log ''Could not create region display window''])
      else
        let region = env_CreateRectRgn_region env;
            region_interior = env_CreateRectRgn_interior env
        in if \<not> env_SetWindowRgn env then
             (1, st,
              [CreateWindowEx, av_log ''Could not set window region''] @
              (if region \<noteq> 0 then [DeleteObject region] else []) @
              (if region_interior \<noteq> 0 then [DeleteObject region_interior] else []) @
              [DestroyWindow wnd])
           else
             (0, st\<lparr>region_hwnd := wnd\<rparr>, [CreateWindowEx, DeleteObject region_interior]))"

definition gdigrab_region_wnd_destroy :: "gdigrab \<Rightarrow> gdigrab \<times> os_call list" where
  "gdigrab_region_wnd_destroy st =
     (st\<lparr>region_hwnd := 0\<rparr>,
      if region_hwnd st \<noteq> 0 then [DestroyWindow (region_hwnd st)] else [])"

text \<open>
  \<^verbatim>\<open>gdigrab_region_wnd_update\<close> dispatches the messages that are pending for the
  outline window (\<open>pending\<close> of them) and returns.
\<close>

definition gdigrab_region_wnd_update :: "nat \<Rightarrow> gdigrab \<Rightarrow> os_call list" where
  "gdigrab_region_wnd_update pending st = replicate pending (DispatchMessage (region_hwnd st))"

section \<open>Opening a session: \<^verbatim>\<open>gdigrab_read_header\<close>\<close>

text \<open>
  What the system answers during one call of \<^verbatim>\<open>gdigrab_read_header\<close>: the target
  string \<^verbatim>\<open>s1->url\<close>, the window lookup, the device context, the bit depth, the attached
  monitors, the window and virtual-screen geometry, the surfaces it creates, the bitmap
  description \<^verbatim>\<open>GetObject\<close> fills in, and the clock.
\<close>

record open_env =
  url :: string
  env_FindWindow :: "string \<Rightarrow> handle"
  env_GetDC :: "handle \<Rightarrow> handle"
  env_BITSPIXEL :: int
  env_monitors :: "display list"
  env_GetWindowRect :: RECT
  env_GetClientRect :: RECT
  SM_XVIRTUALSCREEN :: int
  SM_YVIRTUALSCREEN :: int
  SM_CXVIRTUALSCREEN :: int
  SM_CYVIRTUALSCREEN :: int
  env_CreateCompatibleDC :: handle
  env_CreateDIBSection :: "handle \<times> handle"
  env_SelectObject :: handle
  bmWidthBytes :: int
  bmHeight :: int
  bmPlanes :: int
  env_avformat_new_stream :: bool
  env_av_gettime :: int
  env_region :: region_env

text \<open>The label \<^verbatim>\<open>error:\<close> of \<^verbatim>\<open>gdigrab_read_header\<close>, on the local handles.\<close>

definition error_cleanup :: "handle \<Rightarrow> handle \<Rightarrow> handle \<Rightarrow> handle \<Rightarrow> os_call list" where
  "error_cleanup wnd src dst bmp_h =
     (if src \<noteq> 0 then [ReleaseDC wnd src] else []) @
     (if dst \<noteq> 0 then [DeleteDC dst] else []) @
     (if bmp_h \<noteq> 0 then [DeleteObject bmp_h] else []) @
     (if src \<noteq> 0 then [DeleteDC src] else [])"

text \<open>
  Lines 402--423: the target.  \<open>Inl\<close> is the failure with what was logged; \<open>Inr\<close> is
  the window handle (\<open>0\<close> for the desktop), whether a window name was given, and the
  state, in which a window target switches \<^verbatim>\<open>show_region\<close> off.
\<close>

definition resolve_target ::
    "open_env \<Rightarrow> gdigrab \<Rightarrow> os_call list + (handle \<times> bool \<times> gdigrab \<times> os_call list)" where
  "resolve_target env st =
     (let filename = url env in
      if take 6 filename = ''title='' then
        let name = drop 6 filename; wnd = env_FindWindow env name in
        if wnd = 0 then Inl [av_log ''Cannot find window, aborting'']
        else if show_region st \<noteq> 0 then
          Inr (wnd, True, st\<lparr>show_region := 0\<rparr>,
               [av_log ''Cannot show region when grabbing a window''])
        else Inr (wnd, True, st, [])
      else if filename = ''desktop'' then Inr (0, False, st, [])
      else Inl [av_log ''Please use desktop or title=<windowname> to specify your target''])"

text \<open>Lines 449--478: the virtual bounds of the target, in physical pixels.\<close>

definition virtual_rect_of :: "open_env \<Rightarrow> globals \<Rightarrow> handle \<Rightarrow> fault + RECT" where
  "virtual_rect_of env g wnd =
     (if wnd \<noteq> 0 then
        (case get_monitor_id_by_logical_rectangle g (env_GetWindowRect env) of
           Inl f \<Rightarrow> Inl f
         | Inr ind \<Rightarrow>
        (case LOGICAL_TO_PHYSICAL_X g (rc_left (env_GetClientRect env)) ind of
           Inl f \<Rightarrow> Inl f
         | Inr l \<Rightarrow>
        (case LOGICAL_TO_PHYSICAL_X g (rc_right (env_GetClientRect env)) ind of
           Inl f \<Rightarrow> Inl f
         | Inr r \<Rightarrow>
        (case LOGICAL_TO_PHYSICAL_Y g (rc_top (env_GetClientRect env)) ind of
           Inl f \<Rightarrow> Inl f
         | Inr t \<Rightarrow>
        (case LOGICAL_TO_PHYSICAL_Y g (rc_bottom (env_GetClientRect env)) ind of
           Inl f \<Rightarrow> Inl f
         | Inr b \<Rightarrow> Inr \<lparr>rc_left = l, rc_top = t, rc_right = r, rc_bottom = b\<rparr>)))))
      else
        convert_logical_rect_to_physical g
          \<lparr>rc_left = SM_XVIRTUALSCREEN env, rc_top = SM_YVIRTUALSCREEN env,
           rc_right = SM_XVIRTUALSCREEN env + SM_CXVIRTUALSCREEN env,
           rc_bottom = SM_YVIRTUALSCREEN env + SM_CYVIRTUALSCREEN env\<rparr>)"

text \<open>
  Lines 480--491: the clip rectangle.  The two sums are \<^verbatim>\<open>int\<close> additions stored in
  \<^verbatim>\<open>LONG\<close> fields.
\<close>

definition clip_rect_of :: "gdigrab \<Rightarrow> RECT \<Rightarrow> RECT" where
  "clip_rect_of st virtual_rect =
     (if width st = 0 \<or> height st = 0 then
        \<lparr>rc_left = rc_left virtual_rect, rc_top = rc_top virtual_rect,
         rc_right = rc_right virtual_rect, rc_bottom = rc_bottom virtual_rect\<rparr>
      else
        \<lparr>rc_left = offset_x st, rc_top = offset_y st,
         rc_right = wrap32 (width st + offset_x st),
         rc_bottom = wrap32 (height st + offset_y st)\<rparr>)"

text \<open>
  Lines 530--602: the destination context, the DIB section, the stream, the fields of
  the session and the outline window.  The parameters of the stream are not modelled.
\<close>

definition read_header_alloc ::
    "'d fparith \<Rightarrow> open_env \<Rightarrow> gdigrab \<Rightarrow> handle \<Rightarrow> handle \<Rightarrow> int \<Rightarrow> RECT \<Rightarrow>
     fault + ((averror + unit) \<times> gdigrab \<times> os_call list)" where
  "read_header_alloc fp env st wnd src bpp clip =
     (let dst = env_CreateCompatibleDC env in
      if dst = 0 then
        Inr (Inl EIO, st,
             [CreateCompatibleDC src, av_log ''Screen DC CreateCompatibleDC''] @
             error_cleanup wnd src 0 0)
      else
        let hdr = \<lparr>biSize = sizeof_BITMAPINFOHEADER,
                   biWidth = wrap32 (rc_right clip - rc_left clip),
                   biHeight = wrap32 (- wrap32 (rc_bottom clip - rc_top clip)),
                   biPlanes = 1, biBitCount = bpp, biCompression = 0, biSizeImage = 0,
                   biXPelsPerMeter = 0, biYPelsPerMeter = 0, biClrUsed = 0,
                   biClrImportant = 0\<rparr>;
            bmp_h = fst (env_CreateDIBSection env);
            buf = snd (env_CreateDIBSection env)
        in
        if bmp_h = 0 then
          Inr (Inl EIO, st,
               [CreateCompatibleDC src, CreateDIBSection dst, av_log ''Creating DIB Section''] @
               error_cleanup wnd src dst 0)
        else if env_SelectObject env = 0 then
          Inr (Inl EIO, st,
               [CreateCompatibleDC src, CreateDIBSection dst, SelectObject dst bmp_h,
                av_log ''SelectObject''] @
               error_cleanup wnd src dst bmp_h)
        else if \<not> env_avformat_new_stream env then
          Inr (Inl ENOMEM, st,
               [CreateCompatibleDC src, CreateDIBSection dst, SelectObject dst bmp_h] @
               error_cleanup wnd src dst bmp_h)
        else if bpp < 0 then Inl (ShiftCount bpp)
        else
          let st1 = st\<lparr>frame_size := bmWidthBytes env * bmHeight env * bmPlanes env,
                      header_size := sizeof_BITMAPFILEHEADER + sizeof_BITMAPINFOHEADER +
                                     (if bpp \<le> 8 then 2 ^ nat bpp else 0) * sizeof_RGBQUAD,
                      time_base := av_inv_q (framerate st),
                      time_frame := to_int64 fp (fdiv fp (of_int64 fp (env_av_gettime env))
                                                  (av_q2d fp (av_inv_q (framerate st)))),
                      hwnd := wnd, source_hdc := src, dest_hdc := dst, hbmp := bmp_h,
                      bmi := hdr, buffer := buf, clip_rect := clip,
                      cursor_error_printed := 0\<rparr>
          in
          if show_region st1 \<noteq> 0 then
            (case gdigrab_region_wnd_init (env_region env) st1 of
               (rc, st2, calls) \<Rightarrow>
                 if rc \<noteq> 0 then
                   Inr (Inl EIO, st2,
                        [CreateCompatibleDC src, CreateDIBSection dst, SelectObject dst bmp_h] @
                        calls @ error_cleanup wnd src dst bmp_h)
                 else
                   Inr (Inr (), st2,
                        [CreateCompatibleDC src, CreateDIBSection dst, SelectObject dst bmp_h] @
                        calls))
          else
            Inr (Inr (), st1,
                 [CreateCompatibleDC src, CreateDIBSection dst, SelectObject dst bmp_h]))"

text \<open>
  \<^verbatim>\<open>gdigrab_read_header\<close>.  The result is a fault, or the return value (\<open>Inr ()\<close> for
  0), the session state, the process-wide monitor table and the trace of calls.
\<close>

definition gdigrab_read_header ::
    "'d fparith \<Rightarrow> open_env \<Rightarrow> gdigrab \<Rightarrow> globals \<Rightarrow>
     fault + ((averror + unit) \<times> gdigrab \<times> globals \<times> os_call list)" where
  "gdigrab_read_header fp env st g =
     (case resolve_target env st of
        Inl logs \<Rightarrow> Inr (Inl EIO, st, g, logs)
      | Inr (wnd, named, st1, logs) \<Rightarrow>
          let src = env_GetDC env wnd in
          if src = 0 then
            Inr (Inl EIO, st1, g,
                 logs @ [GetDC wnd, av_log ''Could not get window device context''])
          else
            let bpp = env_BITSPIXEL env in
            (case EnumDisplayMonitors (env_monitors env)
                    (g\<lparr>rcCombined := SetRectEmpty, monitorsNum := 0\<rparr>) of
               Inl f \<Rightarrow> Inl f
             | Inr g1 \<Rightarrow>
            (case virtual_rect_of env g1 wnd of
               Inl f \<Rightarrow> Inl f
             | Inr virtual_rect \<Rightarrow>
                 let clip = clip_rect_of st1 virtual_rect in
                 if rc_left clip < rc_left virtual_rect \<or>
                    rc_top clip < rc_top virtual_rect \<or>
                    rc_right clip > rc_right virtual_rect \<or>
                    rc_bottom clip > rc_bottom virtual_rect then
                   Inr (Inl EIO, st1, g1,
                        logs @ [GetDC wnd, av_log ''Capture area extends outside window area''] @
                        error_cleanup wnd src 0 0)
                 else if wrap32 (rc_right clip - rc_left clip) \<le> 0 \<or>
                         wrap32 (rc_bottom clip - rc_top clip) \<le> 0 \<or>
                         bpp smod 8 \<noteq> 0 then
                   Inr (Inl EIO, st1, g1,
                        logs @ [GetDC wnd, av_log ''Invalid properties, aborting''] @
                        error_cleanup wnd src 0 0)
                 else
                   (case read_header_alloc fp env st1 wnd src bpp clip of
                      Inl f \<Rightarrow> Inl f
                    | Inr (res, st2, calls) \<Rightarrow>
                        Inr (res, st2, g1, logs @ [GetDC wnd] @ calls)))))"

section \<open>Cursor overlay: \<^verbatim>\<open>paint_mouse_pointer\<close>\<close>

text \<open>
  What the system answers during one call of \<^verbatim>\<open>paint_mouse_pointer\<close>: the cursor
  information, the copies of the cursor, the icon information, the window rectangle
  (\<open>None\<close> when \<^verbatim>\<open>GetWindowRect\<close> fails), the four device capabilities of the source
  context and whether \<^verbatim>\<open>DrawIcon\<close> succeeds.
\<close>

record cursor_env =
  env_GetCursorInfo :: bool
  ci_flags :: int
  ci_hCursor :: handle
  ptScreenPos_x :: int
  ptScreenPos_y :: int
  env_CopyCursor :: handle
  env_LoadCursor_arrow :: handle
  env_CopyCursor_arrow :: handle
  env_GetIconInfo :: bool
  xHotspot :: int
  yHotspot :: int
  hbmMask :: handle
  hbmColor :: handle
  env_cursor_GetWindowRect :: "RECT option"
  src_HORZRES :: int
  src_VERTRES :: int
  src_DESKTOPHORZRES :: int
  src_DESKTOPVERTRES :: int
  env_DrawIcon :: bool

text \<open>The macro \<^verbatim>\<open>CURSOR_ERROR\<close>: the message is logged once per session.\<close>

definition CURSOR_ERROR :: "gdigrab \<Rightarrow> string \<Rightarrow> gdigrab \<times> os_call list" where
  "CURSOR_ERROR st str =
     (if cursor_error_printed st = 0 then (st\<lparr>cursor_error_printed := 1\<rparr>, [av_log str])
      else (st, []))"

text \<open>The label \<^verbatim>\<open>icon_error:\<close>.\<close>

definition icon_cleanup :: "handle \<Rightarrow> handle \<Rightarrow> handle \<Rightarrow> os_call list" where
  "icon_cleanup mask_h color_h icon_h =
     (if mask_h \<noteq> 0 then [DeleteObject mask_h] else []) @
     (if color_h \<noteq> 0 then [DeleteObject color_h] else []) @
     (if icon_h \<noteq> 0 then [DestroyCursor icon_h] else [])"

text \<open>
  Lines 662--680: the top-left corner at which the icon is to be drawn; \<open>Inr None\<close>
  when the window rectangle cannot be read.
\<close>

definition pointer_pos :: "cursor_env \<Rightarrow> gdigrab \<Rightarrow> fault + (int \<times> int) option" where
  "pointer_pos env st =
     (if hwnd st \<noteq> 0 then
        (case env_cursor_GetWindowRect env of
           None \<Rightarrow> Inr None
         | Some rect \<Rightarrow>
             (case c_div (wrap32 (wrap32 (ptScreenPos_x env - rc_left (clip_rect st)
                                            - xHotspot env - rc_left rect)
                                    * src_DESKTOPHORZRES env)) (src_HORZRES env) of
                Inl f \<Rightarrow> Inl f
              | Inr px \<Rightarrow>
             (case c_div (wrap32 (wrap32 (ptScreenPos_y env - rc_top (clip_rect st)
                                            - yHotspot env - rc_top rect)
                                    * src_DESKTOPVERTRES env)) (src_VERTRES env) of
                Inl f \<Rightarrow> Inl f
              | Inr py \<Rightarrow> Inr (Some (px, py)))))
      else
        (case c_div (ptScreenPos_x env * src_DESKTOPHORZRES env) (src_HORZRES env) of
           Inl f \<Rightarrow> Inl f
         | Inr qx \<Rightarrow>
        (case c_div (ptScreenPos_y env * src_DESKTOPVERTRES env) (src_VERTRES env) of
           Inl f \<Rightarrow> Inl f
         | Inr qy \<Rightarrow>
             Inr (Some (wrap32 (qx - rc_left (clip_rect st) - xHotspot env),
                        wrap32 (qy - rc_top (clip_rect st) - yHotspot env))))))"

definition paint_mouse_pointer ::
    "cursor_env \<Rightarrow> gdigrab \<Rightarrow> fault + (gdigrab \<times> os_call list)" where
  "paint_mouse_pointer env st =
     (if env_GetCursorInfo env then
        if ci_flags env \<noteq> CURSOR_SHOWING then Inr (st, [CopyCursor (ci_hCursor env)])
        else
          let icon = (if env_CopyCursor env = 0 then env_CopyCursor_arrow env
                      else env_CopyCursor env);
              copies = CopyCursor (ci_hCursor env) #
                       (if env_CopyCursor env = 0 then [CopyCursor (env_LoadCursor_arrow env)]
                        else [])
          in
          if \<not> env_GetIconInfo env then
            (case CURSOR_ERROR st ''Could not get icon info'' of
               (st1, logs) \<Rightarrow> Inr (st1, copies @ logs @ icon_cleanup 0 0 icon))
          else
            (case pointer_pos env st of
               Inl f \<Rightarrow> Inl f
             | Inr None \<Rightarrow>
                 (case CURSOR_ERROR st ''Could not get window rectangle'' of
                    (st1, logs) \<Rightarrow>
                      Inr (st1, copies @ logs @ icon_cleanup (hbmMask env) (hbmColor env) icon))
             | Inr (Some (px, py)) \<Rightarrow>
                 if px \<ge> 0 \<and>
                    px \<le> wrap32 (rc_right (clip_rect st) - rc_left (clip_rect st)) \<and>
                    py \<ge> 0 \<and>
                    py \<le> wrap32 (rc_bottom (clip_rect st) - rc_top (clip_rect st)) then
                   if \<not> env_DrawIcon env then
                     (case CURSOR_ERROR st ''Could not draw icon'' of
                        (st1, logs) \<Rightarrow>
                          Inr (st1, copies @ [DrawIcon (dest_hdc st) px py icon] @ logs @
                                    icon_cleanup (hbmMask env) (hbmColor env) icon))
                   else
                     Inr (st, copies @ [DrawIcon (dest_hdc st) px py icon] @
                              icon_cleanup (hbmMask env) (hbmColor env) icon)
                 else
                   Inr (st, copies @ icon_cleanup (hbmMask env) (hbmColor env) icon))
      else
        (case CURSOR_ERROR st ''Could not get cursor info'' of
           (st1, logs) \<Rightarrow> Inr (st1, logs)))"

section \<open>Reading a packet: \<^verbatim>\<open>gdigrab_read_packet\<close>\<close>

text \<open>
  The packet as far as the model follows it: the size \<^verbatim>\<open>av_new_packet\<close> gave it and
  the presentation time stamp.  The bytes copied into it are not modelled.
\<close>

record AVPacket =
  pkt_size :: int
  pkt_pts :: int

text \<open>
  What the system answers during one call of \<^verbatim>\<open>gdigrab_read_packet\<close>: the flag
  \<^verbatim>\<open>AVFMT_FLAG_NONBLOCK\<close>, the successive readings of \<^verbatim>\<open>av_gettime()\<close>, the number of
  window messages pending, whether the packet can be allocated, whether the blit
  succeeds, and the cursor.
\<close>

record read_env =
  AVFMT_FLAG_NONBLOCK :: bool
  env_clock :: "int list"
  env_pending :: nat
  env_av_new_packet :: bool
  env_BitBlt :: bool
  env_cursor :: cursor_env

text \<open>
  Lines 733--747, the loop \<^verbatim>\<open>for (;;)\<close>.  Each turn reads the clock once; the loop ends
  with the reading and the (possibly advanced) \<^verbatim>\<open>time_frame\<close>, or with \<^verbatim>\<open>EAGAIN\<close>.
  After \<^verbatim>\<open>av_usleep\<close> the next turn takes the next reading.  \<open>None\<close>: the readings
  given do not let the loop end.
\<close>

definition frame_delay :: "'d fparith \<Rightarrow> AVRational \<Rightarrow> int \<Rightarrow> int \<Rightarrow> int" where
  \<comment> \<open>\<^verbatim>\<open>delay = time_frame * av_q2d(time_base) - curtime\<close>\<close>
  "frame_delay fp tb tf curtime =
     to_int64 fp (fsub fp (fmul fp (of_int64 fp tf) (av_q2d fp tb)) (of_int64 fp curtime))"

definition frame_late :: "'d fparith \<Rightarrow> AVRational \<Rightarrow> int \<Rightarrow> bool" where
  \<comment> \<open>\<^verbatim>\<open>delay < INT64_C(-1000000) * av_q2d(time_base)\<close>\<close>
  "frame_late fp tb delay =
     fless fp (of_int64 fp delay) (fmul fp (of_int64 fp (- 1000000)) (av_q2d fp tb))"

fun frame_wait ::
    "'d fparith \<Rightarrow> AVRational \<Rightarrow> bool \<Rightarrow> int list \<Rightarrow> int \<Rightarrow> (averror + int \<times> int) option" where
  "frame_wait fp tb nonblock [] tf = None"
| "frame_wait fp tb nonblock (curtime # later) tf =
     (let delay = frame_delay fp tb tf curtime
      in if delay \<le> 0 then
           Some (Inr (curtime, if frame_late fp tb delay then tf + 1000000 else tf))
         else if nonblock then Some (Inl EAGAIN)
         else frame_wait fp tb nonblock later tf)"

definition gdigrab_read_packet ::
    "'d fparith \<Rightarrow> read_env \<Rightarrow> gdigrab \<Rightarrow>
     (fault + ((averror + int \<times> AVPacket) \<times> gdigrab \<times> os_call list)) option" where
  "gdigrab_read_packet fp env st =
     (let file_size = header_size st + frame_size st;
          pump = (if show_region st \<noteq> 0 then gdigrab_region_wnd_update (env_pending env) st
                  else [])
      in case frame_wait fp (time_base st) (AVFMT_FLAG_NONBLOCK env) (env_clock env)
                (time_frame st + 1000000) of
           None \<Rightarrow> None
         | Some (Inl e) \<Rightarrow> Some (Inr (Inl e, st, pump))
         | Some (Inr (curtime, tf)) \<Rightarrow>
             if \<not> env_av_new_packet env then Some (Inr (Inl ENOMEM, st, pump))
             else if \<not> env_BitBlt env then
               Some (Inr (Inl EIO, st,
                          pump @ [BitBlt (dest_hdc st) (source_hdc st),
                                  av_log ''Failed to capture image'']))
             else
               (case (if draw_mouse st \<noteq> 0 then paint_mouse_pointer (env_cursor env) st
                      else Inr (st, [])) of
                  Inl f \<Rightarrow> Some (Inl f)
                | Inr (st1, calls) \<Rightarrow>
                    Some (Inr (Inr (header_size st1 + frame_size st1,
                                    \<lparr>pkt_size = file_size, pkt_pts = curtime\<rparr>),
                               st1\<lparr>time_frame := tf\<rparr>,
                               pump @ [BitBlt (dest_hdc st) (source_hdc st)] @ calls))))"

section \<open>Closing a session: \<^verbatim>\<open>gdigrab_read_close\<close>\<close>

definition gdigrab_read_close :: "gdigrab \<Rightarrow> int \<times> gdigrab \<times> os_call list" where
  "gdigrab_read_close s =
     (case (if show_region s \<noteq> 0 then gdigrab_region_wnd_destroy s else (s, [])) of
        (s1, destroyed) \<Rightarrow>
          (0, s1,
           destroyed @
           (if source_hdc s1 \<noteq> 0 then [ReleaseDC (hwnd s1) (source_hdc s1)] else []) @
           (if dest_hdc s1 \<noteq> 0 then [DeleteDC (dest_hdc s1)] else []) @
           (if hbmp s1 \<noteq> 0 then [DeleteObject (hbmp s1)] else []) @
           (if source_hdc s1 \<noteq> 0 then [DeleteDC (source_hdc s1)] else [])))"

text \<open>
  Reading a trace for handle discipline: the handle a call gives back to the system, and
  the calls of a trace that give back a handle not among the live ones (it was never
  acquired, or an earlier call of the trace already gave it back).
\<close>

fun released :: "os_call \<Rightarrow> handle option" where
  "released (ReleaseDC w h) = Some h"
| "released (DeleteDC h) = Some h"
| "released (DeleteObject h) = Some h"
| "released (DestroyWindow h) = Some h"
| "released (DestroyCursor h) = Some h"
| "released c = None"

fun stale_releases :: "handle list \<Rightarrow> os_call list \<Rightarrow> os_call list" where
  "stale_releases live [] = []"
| "stale_releases live (c # cs) =
     (case released c of
        None \<Rightarrow> stale_releases live cs
      | Some h \<Rightarrow>
          if h \<in> set live then stale_releases (removeAll h live) cs
          else c # stale_releases live cs)"

section \<open>Concrete configurations\<close>

text \<open>
  The statics as the loader zeroes them, one 800x600 monitor without scaling, the same
  monitor at twice the pixel density, and a 1920x1080 monitor.
\<close>

definition zero_monitor :: MONITOR where
  "zero_monitor =
     \<lparr>logical = \<lparr>res_x = 0, res_y = 0\<rparr>, physical = \<lparr>res_x = 0, res_y = 0\<rparr>,
      mon_rect = SetRectEmpty\<rparr>"

definition globals0 :: globals where
  "globals0 =
     \<lparr>monitors = [zero_monitor, zero_monitor, zero_monitor, zero_monitor],
      monitorsNum = 0, rcCombined = SetRectEmpty\<rparr>"

definition display_800x600 :: display where
  "display_800x600 =
     \<lparr>lprcMonitor = \<lparr>rc_left = 0, rc_top = 0, rc_right = 800, rc_bottom = 600\<rparr>,
      HORZRES = 800, VERTRES = 600, DESKTOPHORZRES = 800, DESKTOPVERTRES = 600\<rparr>"

definition display_800x600_hidpi :: display where
  "display_800x600_hidpi =
     \<lparr>lprcMonitor = \<lparr>rc_left = 0, rc_top = 0, rc_right = 800, rc_bottom = 600\<rparr>,
      HORZRES = 800, VERTRES = 600, DESKTOPHORZRES = 1600, DESKTOPVERTRES = 1200\<rparr>"

definition display_1920x1080 :: display where
  "display_1920x1080 =
     \<lparr>lprcMonitor = \<lparr>rc_left = 0, rc_top = 0, rc_right = 1920, rc_bottom = 1080\<rparr>,
      HORZRES = 1920, VERTRES = 1080, DESKTOPHORZRES = 1920, DESKTOPVERTRES = 1080\<rparr>"

definition registry_800x600 :: globals where
  "registry_800x600 =
     \<lparr>monitors = [monitor_of display_800x600, zero_monitor, zero_monitor, zero_monitor],
      monitorsNum = 1,
      rcCombined = \<lparr>rc_left = 0, rc_top = 0, rc_right = 800, rc_bottom = 600\<rparr>\<rparr>"

text \<open>
  A session as the caller hands it to \<^verbatim>\<open>gdigrab_read_header\<close>: zeroed private data with
  the options \<^verbatim>\<open>framerate=1\<close>, \<^verbatim>\<open>video_size=100x50\<close>, \<^verbatim>\<open>offset_x=10\<close>,
  \<^verbatim>\<open>offset_y=20\<close>, and \<^verbatim>\<open>draw_mouse\<close> and \<^verbatim>\<open>show_region\<close> at their defaults.  At one
  frame per second a tick is 1000000 microseconds and \<^verbatim>\<open>av_q2d(time_base)\<close> is 1.0, so
  that the pacing arithmetic is exact in \<^verbatim>\<open>double\<close>.
\<close>

definition example_session :: gdigrab where
  "example_session =
     \<lparr>frame_size = 0, header_size = 0, time_base = \<lparr>q_num = 0, q_den = 0\<rparr>, time_frame = 0,
      draw_mouse = 1, show_region = 0, framerate = \<lparr>q_num = 1, q_den = 1\<rparr>,
      width = 100, height = 50, offset_x = 10, offset_y = 20,
      hwnd = 0, source_hdc = 0, dest_hdc = 0,
      bmi = \<lparr>biSize = 0, biWidth = 0, biHeight = 0, biPlanes = 0, biBitCount = 0,
             biCompression = 0, biSizeImage = 0, biXPelsPerMeter = 0, biYPelsPerMeter = 0,
             biClrUsed = 0, biClrImportant = 0\<rparr>,
      hbmp = 0, buffer = 0, clip_rect = SetRectEmpty, region_hwnd = 0,
      cursor_error_printed = 0\<rparr>"

text \<open>
  A desktop of one 800x600 monitor at 32 bits per pixel, seen at the moment \<open>t0\<close>
  (microseconds since the epoch).  The system hands out the device context 1, the
  compatible context 2, the bitmap 3 and the buffer 4; the bitmap has 400 bytes per row,
  50 rows and one plane.
\<close>

definition t0 :: int where
  "t0 = 1700000000000000"

definition desktop_env :: open_env where
  "desktop_env =
     \<lparr>url = ''desktop'', env_FindWindow = (\<lambda>name. 0), env_GetDC = (\<lambda>w. 1),
      env_BITSPIXEL = 32, env_monitors = [display_800x600],
      env_GetWindowRect = SetRectEmpty, env_GetClientRect = SetRectEmpty,
      SM_XVIRTUALSCREEN = 0, SM_YVIRTUALSCREEN = 0,
      SM_CXVIRTUALSCREEN = 800, SM_CYVIRTUALSCREEN = 600,
      env_CreateCompatibleDC = 2, env_CreateDIBSection = (3, 4), env_SelectObject = 5,
      bmWidthBytes = 400, bmHeight = 50, bmPlanes = 1,
      env_avformat_new_stream = True, env_av_gettime = t0,
      env_region = \<lparr>env_CreateWindowEx = 6, env_CreateRectRgn_region = 7,
                     env_CreateRectRgn_interior = 8, env_SetWindowRgn = True\<rparr>\<rparr>"

text \<open>The session that \<^verbatim>\<open>gdigrab_read_header\<close> makes of \<open>example_session\<close> there.\<close>

definition opened_session :: gdigrab where
  "opened_session =
     \<lparr>frame_size = 20000, header_size = 54, time_base = \<lparr>q_num = 1, q_den = 1\<rparr>,
      time_frame = t0,
      draw_mouse = 1, show_region = 0, framerate = \<lparr>q_num = 1, q_den = 1\<rparr>,
      width = 100, height = 50, offset_x = 10, offset_y = 20,
      hwnd = 0, source_hdc = 1, dest_hdc = 2,
      bmi = \<lparr>biSize = 40, biWidth = 100, biHeight = - 50, biPlanes = 1, biBitCount = 32,
             biCompression = 0, biSizeImage = 0, biXPelsPerMeter = 0, biYPelsPerMeter = 0,
             biClrUsed = 0, biClrImportant = 0\<rparr>,
      hbmp = 3, buffer = 4,
      clip_rect = \<lparr>rc_left = 10, rc_top = 20, rc_right = 110, rc_bottom = 70\<rparr>,
      region_hwnd = 0, cursor_error_printed = 0\<rparr>"

text \<open>
  A pointer that is hidden, a pointer that is showing at a given screen position, and
  the environment of a read: the clock readings are given, the packet can be allocated,
  the blit succeeds and the pointer is hidden.
\<close>

definition pointer_at :: "int \<Rightarrow> int \<Rightarrow> int \<Rightarrow> cursor_env" where
  "pointer_at flags sx sy =
     \<lparr>env_GetCursorInfo = True, ci_flags = flags, ci_hCursor = 20,
      ptScreenPos_x = sx, ptScreenPos_y = sy,
      env_CopyCursor = 21, env_LoadCursor_arrow = 22, env_CopyCursor_arrow = 23,
      env_GetIconInfo = True, xHotspot = 0, yHotspot = 0, hbmMask = 24, hbmColor = 25,
      env_cursor_GetWindowRect = None,
      src_HORZRES = 800, src_VERTRES = 600,
      src_DESKTOPHORZRES = 800, src_DESKTOPVERTRES = 600,
      env_DrawIcon = True\<rparr>"

definition read_at :: "bool \<Rightarrow> int list \<Rightarrow> read_env" where
  "read_at nonblock readings =
     \<lparr>AVFMT_FLAG_NONBLOCK = nonblock, env_clock = readings, env_pending = 0,
      env_av_new_packet = True, env_BitBlt = True, env_cursor = pointer_at 0 0 0\<rparr>"

text \<open>
  Variants of the desktop: the monitor at twice the pixel density, a 1920x1080 monitor,
  and a display of 8 bits per pixel (100 bytes per row); with the registries that an open
  builds there.
\<close>

definition desktop_env_hidpi :: open_env where
  "desktop_env_hidpi = desktop_env\<lparr>env_monitors := [display_800x600_hidpi]\<rparr>"

definition desktop_env_1920 :: open_env where
  "desktop_env_1920 =
     desktop_env\<lparr>env_monitors := [display_1920x1080],
                 SM_CXVIRTUALSCREEN := 1920, SM_CYVIRTUALSCREEN := 1080\<rparr>"

definition desktop_env_8bpp :: open_env where
  "desktop_env_8bpp = desktop_env\<lparr>env_BITSPIXEL := 8, bmWidthBytes := 100\<rparr>"

definition registry_800x600_hidpi :: globals where
  "registry_800x600_hidpi =
     \<lparr>monitors = [monitor_of display_800x600_hidpi, zero_monitor, zero_monitor, zero_monitor],
      monitorsNum = 1,
      rcCombined = \<lparr>rc_left = 0, rc_top = 0, rc_right = 800, rc_bottom = 600\<rparr>\<rparr>"

definition registry_1920x1080 :: globals where
  "registry_1920x1080 =
     \<lparr>monitors = [monitor_of display_1920x1080, zero_monitor, zero_monitor, zero_monitor],
      monitorsNum = 1,
      rcCombined = \<lparr>rc_left = 0, rc_top = 0, rc_right = 1920, rc_bottom = 1080\<rparr>\<rparr>"

text \<open>
  An open in which the outline window is requested and \<^verbatim>\<open>SetWindowRgn\<close> fails, and the
  session state that this failed open leaves behind.
\<close>

definition desktop_env_region_fails :: open_env where
  "desktop_env_region_fails =
     desktop_env\<lparr>env_region := \<lparr>env_CreateWindowEx = 6, env_CreateRectRgn_region = 7,
                                  env_CreateRectRgn_interior = 8, env_SetWindowRgn = False\<rparr>\<rparr>"

definition half_opened_session :: gdigrab where
  "half_opened_session = opened_session\<lparr>show_region := 1\<rparr>"

text \<open>
  The same request with \<^verbatim>\<open>offset_x=2147483600\<close>, for which \<^verbatim>\<open>width + offset_x\<close>
  exceeds \<^verbatim>\<open>INT_MAX\<close>, and the session that \<^verbatim>\<open>gdigrab_read_header\<close> makes of it on the
  800x600 desktop.
\<close>

definition overflow_session :: gdigrab where
  "overflow_session = example_session\<lparr>offset_x := 2147483600\<rparr>"

definition opened_overflow_session :: gdigrab where
  "opened_overflow_session =
     opened_session\<lparr>offset_x := 2147483600,
                    clip_rect := \<lparr>rc_left = 2147483600, rc_top = 20,
                                  rc_right = - 2147483596, rc_bottom = 70\<rparr>\<rparr>"

text \<open>
  A desktop that reports five monitors, and a target string that names neither the
  desktop nor a window.
\<close>

definition desktop_env_five :: open_env where
  "desktop_env_five =
     desktop_env\<lparr>env_monitors := [display_800x600, display_800x600, display_800x600,
                                   display_800x600, display_800x600]\<rparr>"

definition no_target_env :: open_env where
  "no_target_env = desktop_env\<lparr>url := ''screen''\<rparr>"

section \<open>Notions used in the statements\<close>


text \<open>A rectangle lies within another one.\<close>

definition rect_within :: "RECT \<Rightarrow> RECT \<Rightarrow> bool" where
  "rect_within inner outer =
     (rc_left outer \<le> rc_left inner \<and> rc_top outer \<le> rc_top inner \<and>
      rc_right inner \<le> rc_right outer \<and> rc_bottom inner \<le> rc_bottom outer)"

text \<open>
  An open gets as far as the enumeration of the monitors: the target is resolved and
  its device context obtained.
\<close>

definition reaches_enumeration :: "open_env \<Rightarrow> gdigrab \<Rightarrow> bool" where
  "reaches_enumeration env st =
     (case resolve_target env st of
        Inl logs \<Rightarrow> False
      | Inr (wnd, named, st1, logs) \<Rightarrow> env_GetDC env wnd \<noteq> 0)"

text \<open>The monitor table that a call of \<^verbatim>\<open>gdigrab_read_header\<close> leaves behind.\<close>

definition registry_after ::
    "fault + ((averror + unit) \<times> gdigrab \<times> globals \<times> os_call list) \<Rightarrow> globals option" where
  "registry_after r = (case r of Inl f \<Rightarrow> None | Inr (res, st, g, tr) \<Rightarrow> Some g)"

section \<open>Properties of the monitor registry\<close>

lemmas registry_eval =
  globals0_def zero_monitor_def registry_800x600_def display_800x600_def
  display_800x600_hidpi_def display_1920x1080_def monitor_of_def monitor_enum_def
  MY_MAX_MONITORS_def UnionRect_def IsRectEmpty_def SetRectEmpty_def
  get_monitor_id_by_logical_point_def get_monitor_id_by_logical_x_def
  get_monitor_id_by_logical_y_def get_monitor_id_by_logical_rectangle_def
  scan_monitors.simps monitor_at_def LOGICAL_TO_PHYSICAL_X_def LOGICAL_TO_PHYSICAL_Y_def
  c_div_def signed_divide_int_def corner_indices_def convert_logical_rect_to_physical_def

subsection \<open>Enumeration\<close>

lemma monitor_enum_num:
  "monitor_enum d g = Inr g' \<Longrightarrow> monitorsNum g' = monitorsNum g + 1 \<and> 0 \<le> monitorsNum g \<and> monitorsNum g < MY_MAX_MONITORS"
  by (auto simp: monitor_enum_def Let_def split: if_splits)

lemma monitor_enum_ok:
  "0 \<le> monitorsNum g \<Longrightarrow> monitorsNum g < MY_MAX_MONITORS \<Longrightarrow> \<exists>g'. monitor_enum d g = Inr g'"
  by (simp add: monitor_enum_def Let_def)

lemma monitor_enum_full:
  "monitorsNum g = MY_MAX_MONITORS \<Longrightarrow> monitor_enum d g = Inl (OutOfBounds MY_MAX_MONITORS)"
  by (simp add: monitor_enum_def Let_def)

lemma enum_fits:
  "0 \<le> monitorsNum g \<Longrightarrow> monitorsNum g + int (length ds) \<le> MY_MAX_MONITORS \<Longrightarrow>
   \<exists>g'. EnumDisplayMonitors ds g = Inr g' \<and> monitorsNum g' = monitorsNum g + int (length ds)"
proof (induction ds arbitrary: g)
  case Nil
  then show ?case by simp
next
  case (Cons d ds)
  from Cons.prems obtain g1 where g1: "monitor_enum d g = Inr g1"
    using monitor_enum_ok [of g d] by auto
  then have n1: "monitorsNum g1 = monitorsNum g + 1"
    by (simp add: monitor_enum_num)
  with Cons.prems have "0 \<le> monitorsNum g1" "monitorsNum g1 + int (length ds) \<le> MY_MAX_MONITORS"
    by simp_all
  from Cons.IH [OF this] g1 n1 show ?case by auto
qed

lemma enum_overflows:
  "0 \<le> monitorsNum g \<Longrightarrow> monitorsNum g \<le> MY_MAX_MONITORS \<Longrightarrow>
   MY_MAX_MONITORS < monitorsNum g + int (length ds) \<Longrightarrow>
   EnumDisplayMonitors ds g = Inl (OutOfBounds MY_MAX_MONITORS)"
proof (induction ds arbitrary: g)
  case Nil
  then show ?case by simp
next
  case (Cons d ds)
  show ?case
  proof (cases "monitorsNum g = MY_MAX_MONITORS")
    case True
    then show ?thesis by (simp add: monitor_enum_full)
  next
    case False
    with Cons.prems obtain g1 where g1: "monitor_enum d g = Inr g1"
      using monitor_enum_ok [of g d] by auto
    then have n1: "monitorsNum g1 = monitorsNum g + 1"
      by (simp add: monitor_enum_num)
    with Cons.prems False have "0 \<le> monitorsNum g1" "monitorsNum g1 \<le> MY_MAX_MONITORS"
      "MY_MAX_MONITORS < monitorsNum g1 + int (length ds)"
      by simp_all
    from Cons.IH [OF this] g1 show ?thesis by simp
  qed
qed


text \<open>
  C10.  Enumeration stays inside the array \<^verbatim>\<open>monitors[MY_MAX_MONITORS]\<close> exactly when at
  most \<open>MY_MAX_MONITORS = 4\<close> monitors are attached.  Started with the count at 0, it
  stores one entry per monitor and ends with the count equal to their number if there
  are at most four; with more than four, the callback, which never tests the index,
  writes at index 4, outside the array.
\<close>

theorem monitor_enum_in_bounds_iff:
  "monitorsNum g = 0 \<Longrightarrow>
   MY_MAX_MONITORS = 4 \<and>
   (int (length ds) \<le> MY_MAX_MONITORS \<longrightarrow>
      (\<exists>g'. EnumDisplayMonitors ds g = Inr g' \<and> monitorsNum g' = int (length ds))) \<and>
   (MY_MAX_MONITORS < int (length ds) \<longrightarrow>
      EnumDisplayMonitors ds g = Inl (OutOfBounds MY_MAX_MONITORS))"
  using enum_fits [of g ds] enum_overflows [of g ds]
  by (auto simp: MY_MAX_MONITORS_def)

theorem monitor_enum_in_bounds_iff_witness:
  "monitorsNum globals0 = 0 \<and>
   EnumDisplayMonitors (replicate 5 display_800x600) globals0 = Inl (OutOfBounds 4) \<and>
   (\<exists>g'. EnumDisplayMonitors [display_800x600] globals0 = Inr g' \<and> monitorsNum g' = 1)"
proof -
  have z: "monitorsNum globals0 = 0" by (simp add: globals0_def)
  from monitor_enum_in_bounds_iff [OF z, of "replicate 5 display_800x600"]
  have five: "EnumDisplayMonitors (replicate 5 display_800x600) globals0 = Inl (OutOfBounds 4)"
    by (simp add: MY_MAX_MONITORS_def)
  from monitor_enum_in_bounds_iff [OF z, of "[display_800x600]"]
  have one: "\<exists>g'. EnumDisplayMonitors [display_800x600] globals0 = Inr g' \<and> monitorsNum g' = 1"
    by (simp add: MY_MAX_MONITORS_def)
  from z five one show ?thesis by blast
qed

subsection \<open>Lookups and conversion\<close>

lemma scan_empty: "monitorsNum g \<le> i \<Longrightarrow> scan_monitors P g i = Inr (- 1)"
  by (subst scan_monitors.simps) simp

lemma scan_range:
  "scan_monitors P g i = Inr k \<Longrightarrow> 0 \<le> i \<Longrightarrow> k = - 1 \<or> (i \<le> k \<and> k < monitorsNum g \<and> k < MY_MAX_MONITORS)"
proof (induction P g i rule: scan_monitors.induct)
  case (1 P g i)
  show ?case
  proof (cases "i < monitorsNum g")
    case False
    with "1.prems" show ?thesis by (subst (asm) scan_monitors.simps) simp
  next
    case True
    show ?thesis
    proof (cases "monitor_at g i")
      case (Inl f)
      with True "1.prems" show ?thesis by (subst (asm) scan_monitors.simps) simp
    next
      case (Inr m)
      then have lt: "i < MY_MAX_MONITORS" by (simp add: monitor_at_def split: if_splits)
      show ?thesis
      proof (cases "P m")
        case True
        with \<open>i < monitorsNum g\<close> Inr "1.prems" lt show ?thesis
          by (subst (asm) scan_monitors.simps) simp
      next
        case False
        with \<open>i < monitorsNum g\<close> Inr "1.prems" have "scan_monitors P g (i + 1) = Inr k"
          by (subst (asm) scan_monitors.simps) simp
        from "1.IH" [OF \<open>i < monitorsNum g\<close> Inr False this] "1.prems" show ?thesis by auto
      qed
    qed
  qed
qed

text \<open>A weaker test finds nothing only if the stronger test finds nothing.\<close>
lemma scan_weaker:
  "scan_monitors Q g i = Inr (- 1) \<Longrightarrow> 0 \<le> i \<Longrightarrow> (\<And>m. P m \<Longrightarrow> Q m) \<Longrightarrow>
   scan_monitors P g i = Inr (- 1)"
proof (induction Q g i rule: scan_monitors.induct)
  case (1 Q g i)
  show ?case
  proof (cases "i < monitorsNum g")
    case False
    then show ?thesis by (simp add: scan_empty)
  next
    case True
    show ?thesis
    proof (cases "monitor_at g i")
      case (Inl f)
      with True "1.prems" show ?thesis by (subst (asm) scan_monitors.simps) simp
    next
      case (Inr m)
      have nq: "\<not> Q m"
      proof
        assume "Q m"
        with True Inr "1.prems"(1) have "Inr i = (Inr (- 1) :: fault + int)"
          by (subst (asm) scan_monitors.simps) simp
        with "1.prems"(2) show False by simp
      qed
      with True Inr "1.prems"(1) have "scan_monitors Q g (i + 1) = Inr (- 1)"
        by (subst (asm) scan_monitors.simps) simp
      from "1.IH" [OF True Inr nq this] "1.prems" have "scan_monitors P g (i + 1) = Inr (- 1)"
        by simp
      moreover from nq "1.prems"(3) have "\<not> P m" by blast
      ultimately show ?thesis using True Inr
        by (subst scan_monitors.simps) simp
    qed
  qed
qed

lemma point_unresolved_x:
  "get_monitor_id_by_logical_x g px = Inr (- 1) \<Longrightarrow>
   get_monitor_id_by_logical_point g px py = Inr (- 1)"
  unfolding get_monitor_id_by_logical_x_def get_monitor_id_by_logical_point_def
  by (erule scan_weaker) auto

lemma point_unresolved_y:
  "get_monitor_id_by_logical_y g py = Inr (- 1) \<Longrightarrow>
   get_monitor_id_by_logical_point g px py = Inr (- 1)"
  unfolding get_monitor_id_by_logical_y_def get_monitor_id_by_logical_point_def
  by (erule scan_weaker) auto

lemma L2PX_minus_one: "LOGICAL_TO_PHYSICAL_X g v (- 1) = Inl (OutOfBounds (- 1))"
  by (simp add: LOGICAL_TO_PHYSICAL_X_def monitor_at_def)

lemma L2PY_minus_one: "LOGICAL_TO_PHYSICAL_Y g v (- 1) = Inl (OutOfBounds (- 1))"
  by (simp add: LOGICAL_TO_PHYSICAL_Y_def monitor_at_def)


lemma scan_no_fault:
  "scan_monitors Q g i = Inr (- 1) \<Longrightarrow> 0 \<le> i \<Longrightarrow> \<exists>k. scan_monitors P g i = Inr k"
proof (induction Q g i rule: scan_monitors.induct)
  case (1 Q g i)
  show ?case
  proof (cases "i < monitorsNum g")
    case False
    then show ?thesis by (simp add: scan_empty)
  next
    case True
    show ?thesis
    proof (cases "monitor_at g i")
      case (Inl f)
      with True "1.prems" show ?thesis by (subst (asm) scan_monitors.simps) simp
    next
      case (Inr m)
      have nq: "\<not> Q m"
      proof
        assume "Q m"
        with True Inr "1.prems"(1) have "Inr i = (Inr (- 1) :: fault + int)"
          by (subst (asm) scan_monitors.simps) simp
        with "1.prems"(2) show False by simp
      qed
      with True Inr "1.prems"(1) have "scan_monitors Q g (i + 1) = Inr (- 1)"
        by (subst (asm) scan_monitors.simps) simp
      from "1.IH" [OF True Inr nq this] "1.prems" obtain k where
        "scan_monitors P g (i + 1) = Inr k" by auto
      with True Inr show ?thesis
        by (subst scan_monitors.simps) simp
    qed
  qed
qed

lemma scan_found_weaker:
  "scan_monitors P g i = Inr k \<Longrightarrow> 0 \<le> k \<Longrightarrow> 0 \<le> i \<Longrightarrow> (\<And>m. P m \<Longrightarrow> Q m) \<Longrightarrow>
   \<exists>j. scan_monitors Q g i = Inr j \<and> 0 \<le> j"
proof (induction P g i rule: scan_monitors.induct)
  case (1 P g i)
  show ?case
  proof (cases "i < monitorsNum g")
    case False
    with "1.prems" show ?thesis by (subst (asm) scan_monitors.simps) simp
  next
    case True
    show ?thesis
    proof (cases "monitor_at g i")
      case (Inl f)
      with True "1.prems" show ?thesis by (subst (asm) scan_monitors.simps) simp
    next
      case (Inr m)
      show ?thesis
      proof (cases "Q m")
        case True
        with \<open>i < monitorsNum g\<close> Inr "1.prems"(3) show ?thesis
          by (subst scan_monitors.simps) simp
      next
        case False
        with "1.prems"(4) have np: "\<not> P m" by blast
        with \<open>i < monitorsNum g\<close> Inr "1.prems"(1) have "scan_monitors P g (i + 1) = Inr k"
          by (subst (asm) scan_monitors.simps) simp
        from "1.IH" [OF \<open>i < monitorsNum g\<close> Inr np this] "1.prems" obtain j where
          "scan_monitors Q g (i + 1) = Inr j" "0 \<le> j" by auto
        with \<open>i < monitorsNum g\<close> Inr False show ?thesis
          by (subst scan_monitors.simps) simp
      qed
    qed
  qed
qed

lemma L2PX_index: "LOGICAL_TO_PHYSICAL_X g v i = Inr w \<Longrightarrow> 0 \<le> i \<and> i < MY_MAX_MONITORS"
  by (auto simp: LOGICAL_TO_PHYSICAL_X_def monitor_at_def split: if_splits)

lemma L2PY_index: "LOGICAL_TO_PHYSICAL_Y g v i = Inr w \<Longrightarrow> 0 \<le> i \<and> i < MY_MAX_MONITORS"
  by (auto simp: LOGICAL_TO_PHYSICAL_Y_def monitor_at_def split: if_splits)

lemma corner_indices_resolved:
  assumes "corner_indices g px py = Inr (ix, iy)" and "0 \<le> ix" and "0 \<le> iy"
  shows "\<exists>a b. get_monitor_id_by_logical_x g px = Inr a \<and> 0 \<le> a \<and>
               get_monitor_id_by_logical_y g py = Inr b \<and> 0 \<le> b"
proof (cases "get_monitor_id_by_logical_point g px py")
  case (Inl f)
  with assms show ?thesis by (simp add: corner_indices_def)
next
  case (Inr ind)
  show ?thesis
  proof (cases "0 \<le> ind")
    case True
    from Inr True have "\<exists>j. get_monitor_id_by_logical_x g px = Inr j \<and> 0 \<le> j"
      unfolding get_monitor_id_by_logical_x_def get_monitor_id_by_logical_point_def
      by (rule scan_found_weaker) auto
    moreover from Inr True have "\<exists>j. get_monitor_id_by_logical_y g py = Inr j \<and> 0 \<le> j"
      unfolding get_monitor_id_by_logical_y_def get_monitor_id_by_logical_point_def
      by (rule scan_found_weaker) auto
    ultimately show ?thesis by blast
  next
    case False
    with Inr assms show ?thesis
      by (auto simp: corner_indices_def split: sum.splits)
  qed
qed

lemma corner_indices_x_unresolved:
  assumes "get_monitor_id_by_logical_x g px = Inr (- 1)"
  shows "\<exists>iy. corner_indices g px py = Inr (- 1, iy)"
proof -
  from assms have "get_monitor_id_by_logical_point g px py = Inr (- 1)"
    by (rule point_unresolved_x)
  moreover from assms obtain k where "get_monitor_id_by_logical_y g py = Inr k"
    unfolding get_monitor_id_by_logical_x_def get_monitor_id_by_logical_y_def
    using scan_no_fault by blast
  ultimately show ?thesis using assms by (simp add: corner_indices_def)
qed

lemma convert_left_unresolved:
  assumes "get_monitor_id_by_logical_x g (rc_left r) = Inr (- 1)"
  shows "convert_logical_rect_to_physical g r = Inl (OutOfBounds (- 1))"
proof -
  from corner_indices_x_unresolved [OF assms] obtain iy where
    "corner_indices g (rc_left r) (rc_top r) = Inr (- 1, iy)" by blast
  then show ?thesis
    by (simp add: convert_logical_rect_to_physical_def L2PX_minus_one)
qed

lemma convert_defined:
  assumes "convert_logical_rect_to_physical g r = Inr r'"
  shows "\<exists>a b c d.
           get_monitor_id_by_logical_x g (rc_left r) = Inr a \<and> 0 \<le> a \<and>
           get_monitor_id_by_logical_y g (rc_top r) = Inr b \<and> 0 \<le> b \<and>
           get_monitor_id_by_logical_x g (rc_right r - 1) = Inr c \<and> 0 \<le> c \<and>
           get_monitor_id_by_logical_y g (rc_bottom r - 1) = Inr d \<and> 0 \<le> d"
proof -
  from assms obtain ix iy l t jx jy rt b where
    c1: "corner_indices g (rc_left r) (rc_top r) = Inr (ix, iy)" and
    x1: "LOGICAL_TO_PHYSICAL_X g (rc_left r) ix = Inr l" and
    y1: "LOGICAL_TO_PHYSICAL_Y g (rc_top r) iy = Inr t" and
    c2: "corner_indices g (rc_right r - 1) (rc_bottom r - 1) = Inr (jx, jy)" and
    x2: "LOGICAL_TO_PHYSICAL_X g (rc_right r) jx = Inr rt" and
    y2: "LOGICAL_TO_PHYSICAL_Y g (rc_bottom r) jy = Inr b"
    by (auto simp: convert_logical_rect_to_physical_def split: sum.splits prod.splits)
  from x1 y1 x2 y2 have "0 \<le> ix" "0 \<le> iy" "0 \<le> jx" "0 \<le> jy"
    using L2PX_index L2PY_index by blast+
  with corner_indices_resolved [OF c1] corner_indices_resolved [OF c2]
  show ?thesis by blast
qed

lemma convert_empty_registry:
  "monitorsNum g \<le> 0 \<Longrightarrow> convert_logical_rect_to_physical g r = Inl (OutOfBounds (- 1))"
  by (simp add: convert_logical_rect_to_physical_def corner_indices_def
      get_monitor_id_by_logical_point_def get_monitor_id_by_logical_x_def
      get_monitor_id_by_logical_y_def scan_empty L2PX_minus_one)


text \<open>
  C9.  \<^verbatim>\<open>convert_logical_rect_to_physical\<close> has a result only if every corner coordinate
  is found on some monitor.  With an empty registry the point lookup and both axis
  lookups return \<open>-1\<close> and the conversion reads \<^verbatim>\<open>monitors[-1]\<close>; the same happens when
  the left edge lies in no monitor's horizontal span; and whenever the conversion does
  return a rectangle, all four axis lookups (left, top, right - 1, bottom - 1) have
  found a monitor.
\<close>

theorem convert_logical_rect_partial:
  "(monitorsNum g \<le> 0 \<longrightarrow>
      get_monitor_id_by_logical_point g px py = Inr (- 1) \<and>
      get_monitor_id_by_logical_x g px = Inr (- 1) \<and>
      get_monitor_id_by_logical_y g py = Inr (- 1) \<and>
      convert_logical_rect_to_physical g r = Inl (OutOfBounds (- 1))) \<and>
   (get_monitor_id_by_logical_x g (rc_left r) = Inr (- 1) \<longrightarrow>
      convert_logical_rect_to_physical g r = Inl (OutOfBounds (- 1))) \<and>
   (\<forall>r'. convert_logical_rect_to_physical g r = Inr r' \<longrightarrow>
      (\<exists>a b c d.
          get_monitor_id_by_logical_x g (rc_left r) = Inr a \<and> 0 \<le> a \<and>
          get_monitor_id_by_logical_y g (rc_top r) = Inr b \<and> 0 \<le> b \<and>
          get_monitor_id_by_logical_x g (rc_right r - 1) = Inr c \<and> 0 \<le> c \<and>
          get_monitor_id_by_logical_y g (rc_bottom r - 1) = Inr d \<and> 0 \<le> d))"
proof (intro conjI impI allI)
  assume e: "monitorsNum g \<le> 0"
  show "get_monitor_id_by_logical_point g px py = Inr (- 1)"
    using e by (simp add: get_monitor_id_by_logical_point_def scan_empty)
  show "get_monitor_id_by_logical_x g px = Inr (- 1)"
    using e by (simp add: get_monitor_id_by_logical_x_def scan_empty)
  show "get_monitor_id_by_logical_y g py = Inr (- 1)"
    using e by (simp add: get_monitor_id_by_logical_y_def scan_empty)
  show "convert_logical_rect_to_physical g r = Inl (OutOfBounds (- 1))"
    using e by (rule convert_empty_registry)
next
  assume "get_monitor_id_by_logical_x g (rc_left r) = Inr (- 1)"
  then show "convert_logical_rect_to_physical g r = Inl (OutOfBounds (- 1))"
    by (rule convert_left_unresolved)
next
  fix r'
  assume "convert_logical_rect_to_physical g r = Inr r'"
  then show "\<exists>a b c d.
          get_monitor_id_by_logical_x g (rc_left r) = Inr a \<and> 0 \<le> a \<and>
          get_monitor_id_by_logical_y g (rc_top r) = Inr b \<and> 0 \<le> b \<and>
          get_monitor_id_by_logical_x g (rc_right r - 1) = Inr c \<and> 0 \<le> c \<and>
          get_monitor_id_by_logical_y g (rc_bottom r - 1) = Inr d \<and> 0 \<le> d"
    by (rule convert_defined)
qed

theorem convert_logical_rect_partial_witness:
  "monitorsNum globals0 \<le> 0 \<and>
   convert_logical_rect_to_physical globals0
     \<lparr>rc_left = 0, rc_top = 0, rc_right = 800, rc_bottom = 600\<rparr> = Inl (OutOfBounds (- 1)) \<and>
   get_monitor_id_by_logical_x registry_800x600 900 = Inr (- 1) \<and>
   convert_logical_rect_to_physical registry_800x600
     \<lparr>rc_left = 900, rc_top = 0, rc_right = 1000, rc_bottom = 100\<rparr> = Inl (OutOfBounds (- 1)) \<and>
   convert_logical_rect_to_physical registry_800x600
     \<lparr>rc_left = 0, rc_top = 0, rc_right = 800, rc_bottom = 600\<rparr> =
     Inr \<lparr>rc_left = 0, rc_top = 0, rc_right = 800, rc_bottom = 600\<rparr> \<and>
   get_monitor_id_by_logical_x registry_800x600 799 = Inr 0 \<and>
   get_monitor_id_by_logical_y registry_800x600 599 = Inr 0"
proof -
  have z: "monitorsNum globals0 \<le> 0" by (simp add: globals0_def)
  have x: "get_monitor_id_by_logical_x registry_800x600 900 = Inr (- 1)"
    by (simp add: registry_eval)
  have ok: "convert_logical_rect_to_physical registry_800x600
     \<lparr>rc_left = 0, rc_top = 0, rc_right = 800, rc_bottom = 600\<rparr> =
     Inr \<lparr>rc_left = 0, rc_top = 0, rc_right = 800, rc_bottom = 600\<rparr>"
    by (simp add: registry_eval)
  note e = convert_logical_rect_partial
    [of globals0 0 0 "\<lparr>rc_left = 0, rc_top = 0, rc_right = 800, rc_bottom = 600\<rparr>"]
  note l = convert_logical_rect_partial
    [of registry_800x600 0 0 "\<lparr>rc_left = 900, rc_top = 0, rc_right = 1000, rc_bottom = 100\<rparr>"]
  note d = convert_logical_rect_partial
    [of registry_800x600 0 0 "\<lparr>rc_left = 0, rc_top = 0, rc_right = 800, rc_bottom = 600\<rparr>"]
  from e z have c1: "convert_logical_rect_to_physical globals0
     \<lparr>rc_left = 0, rc_top = 0, rc_right = 800, rc_bottom = 600\<rparr> = Inl (OutOfBounds (- 1))"
    by blast
  from l x have c2: "convert_logical_rect_to_physical registry_800x600
     \<lparr>rc_left = 900, rc_top = 0, rc_right = 1000, rc_bottom = 100\<rparr> = Inl (OutOfBounds (- 1))"
    by simp
  from d ok obtain c d where
    "get_monitor_id_by_logical_x registry_800x600 799 = Inr c" "0 \<le> c"
    "get_monitor_id_by_logical_y registry_800x600 599 = Inr d" "0 \<le> d"
    by auto
  moreover have "get_monitor_id_by_logical_x registry_800x600 799 = Inr 0"
    "get_monitor_id_by_logical_y registry_800x600 599 = Inr 0"
    by (simp_all add: registry_eval)
  ultimately show ?thesis using z x ok c1 c2 by simp
qed

subsection \<open>Contents of the registry after enumeration\<close>

lemma monitor_enum_content:
  assumes "monitor_enum d g = Inr g1" and "length (monitors g) = nat MY_MAX_MONITORS"
  shows "length (monitors g1) = nat MY_MAX_MONITORS \<and>
         monitorsNum g1 = monitorsNum g + 1 \<and> 0 \<le> monitorsNum g \<and>
         take (nat (monitorsNum g1)) (monitors g1) =
           take (nat (monitorsNum g)) (monitors g) @ [monitor_of d] \<and>
         rcCombined g1 = UnionRect (rcCombined g) (lprcMonitor d)"
proof -
  from assms(1) have n: "0 \<le> monitorsNum g" "monitorsNum g < MY_MAX_MONITORS"
    and g1: "g1 = g\<lparr>monitors := (monitors g)[nat (monitorsNum g) := monitor_of d],
                     rcCombined := UnionRect (rcCombined g) (lprcMonitor d),
                     monitorsNum := monitorsNum g + 1\<rparr>"
    by (auto simp: monitor_enum_def Let_def split: if_splits)
  from n assms(2) have lt: "nat (monitorsNum g) < length (monitors g)" by simp
  from n have suc: "nat (monitorsNum g + 1) = Suc (nat (monitorsNum g))" by simp
  from lt have "take (Suc (nat (monitorsNum g))) ((monitors g)[nat (monitorsNum g) := monitor_of d])
      = take (nat (monitorsNum g)) (monitors g) @ [monitor_of d]"
    by (simp add: take_Suc_conv_app_nth)
  with g1 n assms(2) suc show ?thesis by simp
qed

lemma enum_content:
  "EnumDisplayMonitors ds g = Inr g' \<Longrightarrow> length (monitors g) = nat MY_MAX_MONITORS \<Longrightarrow>
   0 \<le> monitorsNum g \<Longrightarrow>
   monitorsNum g' = monitorsNum g + int (length ds) \<and>
   take (nat (monitorsNum g')) (monitors g') =
     take (nat (monitorsNum g)) (monitors g) @ map monitor_of ds \<and>
   rcCombined g' = foldl UnionRect (rcCombined g) (map lprcMonitor ds)"
proof (induction ds arbitrary: g)
  case Nil
  then show ?case by simp
next
  case (Cons d ds)
  from Cons.prems(1) obtain g1 where g1: "monitor_enum d g = Inr g1"
    and rest: "EnumDisplayMonitors ds g1 = Inr g'"
    by (auto split: sum.splits)
  note c = monitor_enum_content [OF g1 Cons.prems(2)]
  from c have len: "length (monitors g1) = nat MY_MAX_MONITORS"
    and num: "monitorsNum g1 = monitorsNum g + 1"
    and tk: "take (nat (monitorsNum g1)) (monitors g1) =
               take (nat (monitorsNum g)) (monitors g) @ [monitor_of d]"
    and rc: "rcCombined g1 = UnionRect (rcCombined g) (lprcMonitor d)"
    by blast+
  from num Cons.prems(3) have nn: "0 \<le> monitorsNum g1" by simp
  from Cons.IH [OF rest len nn]
  have n': "monitorsNum g' = monitorsNum g1 + int (length ds)"
    and tk': "take (nat (monitorsNum g')) (monitors g') =
                take (nat (monitorsNum g1)) (monitors g1) @ map monitor_of ds"
    and rc': "rcCombined g' = foldl UnionRect (rcCombined g1) (map lprcMonitor ds)"
    by blast+
  from n' num have "monitorsNum g' = monitorsNum g + int (length (d # ds))" by simp
  moreover from tk' tk have "take (nat (monitorsNum g')) (monitors g') =
      take (nat (monitorsNum g)) (monitors g) @ map monitor_of (d # ds)"
    by simp
  moreover from rc' rc have
    "rcCombined g' = foldl UnionRect (rcCombined g) (map lprcMonitor (d # ds))"
    by simp
  ultimately show ?case by blast
qed


section \<open>Properties of \<^verbatim>\<open>gdigrab_read_header\<close>\<close>

lemmas header_eval =
  gdigrab_read_header_def resolve_target_def virtual_rect_of_def clip_rect_of_def
  read_header_alloc_def error_cleanup_def gdigrab_region_wnd_init_def Let_def
  exact_double_def av_inv_q_def sizeof_BITMAPFILEHEADER_def sizeof_BITMAPINFOHEADER_def
  sizeof_RGBQUAD_def signed_modulo_int_def example_session_def desktop_env_def
  opened_session_def t0_def desktop_env_hidpi_def desktop_env_1920_def
  desktop_env_8bpp_def registry_800x600_hidpi_def registry_1920x1080_def
  desktop_env_region_fails_def half_opened_session_def wrap32_def
  overflow_session_def opened_overflow_session_def desktop_env_five_def no_target_env_def

lemma open_example:
  "gdigrab_read_header exact_double desktop_env example_session globals0 =
     Inr (Inr (), opened_session, registry_800x600,
          [GetDC 0, CreateCompatibleDC 1, CreateDIBSection 2, SelectObject 2 3])"
  by (simp add: header_eval registry_eval)


lemma open_example_8bpp:
  "gdigrab_read_header exact_double desktop_env_8bpp example_session globals0 =
     Inr (Inr (),
          opened_session\<lparr>frame_size := 5000, header_size := 1078,
                         bmi := (bmi opened_session)\<lparr>biBitCount := 8\<rparr>\<rparr>,
          registry_800x600,
          [GetDC 0, CreateCompatibleDC 1, CreateDIBSection 2, SelectObject 2 3])"
  by (simp add: header_eval registry_eval)

lemma open_example_1920:
  "gdigrab_read_header exact_double desktop_env_1920 example_session registry_800x600 =
     Inr (Inr (), opened_session, registry_1920x1080,
          [GetDC 0, CreateCompatibleDC 1, CreateDIBSection 2, SelectObject 2 3])"
  by (simp add: header_eval registry_eval)

lemma smod_8_dvd: "(k :: int) smod 8 = 0 \<longleftrightarrow> 8 dvd k"
  by (auto simp: signed_modulo_int_def sgn_if dvd_eq_mod_eq_0 zmod_zminus1_eq_if split: if_splits)

lemma resolve_target_state:
  "resolve_target env st = Inr (wnd, named, st1, logs) \<Longrightarrow>
   st1 = st \<or> st1 = st\<lparr>show_region := 0\<rparr>"
  by (auto simp: resolve_target_def Let_def split: if_splits)

lemma error_cleanup_no_surface:
  "CreateCompatibleDC h \<notin> set (error_cleanup wnd src dst b) \<and>
   CreateDIBSection h \<notin> set (error_cleanup wnd src dst b)"
  by (simp add: error_cleanup_def)

lemma resolve_target_logs:
  "resolve_target env st = Inr (wnd, named, st1, logs) \<Longrightarrow>
   CreateCompatibleDC h \<notin> set logs \<and> CreateDIBSection h \<notin> set logs"
  by (auto simp: resolve_target_def Let_def split: if_splits)

lemma read_header_alloc_ok:
  assumes "read_header_alloc fp env st wnd src bpp clip = Inr (Inr (), st', calls)"
  shows "clip_rect st' = clip \<and> 0 \<le> bpp \<and>
         header_size st' = 14 + 40 + (if bpp \<le> 8 then 2 ^ nat bpp * 4 else 0) \<and>
         frame_size st' = bmWidthBytes env * bmHeight env * bmPlanes env \<and>
         source_hdc st' = src \<and> hwnd st' = wnd"
  using assms
  by (auto simp: read_header_alloc_def Let_def gdigrab_region_wnd_init_def
      sizeof_BITMAPFILEHEADER_def sizeof_BITMAPINFOHEADER_def sizeof_RGBQUAD_def
      split: if_splits prod.splits)


lemma open_overflow:
  "gdigrab_read_header exact_double desktop_env overflow_session globals0 =
     Inr (Inr (), opened_overflow_session, registry_800x600,
          [GetDC 0, CreateCompatibleDC 1, CreateDIBSection 2, SelectObject 2 3])"
  by (simp add: header_eval registry_eval)

lemma read_header_success:
  assumes "gdigrab_read_header fp env st g = Inr (Inr (), st', g', tr)"
  shows "\<exists>wnd named st1 logs v calls.
           resolve_target env st = Inr (wnd, named, st1, logs) \<and>
           env_GetDC env wnd \<noteq> 0 \<and>
           EnumDisplayMonitors (env_monitors env)
             (g\<lparr>rcCombined := SetRectEmpty, monitorsNum := 0\<rparr>) = Inr g' \<and>
           virtual_rect_of env g' wnd = Inr v \<and>
           rect_within (clip_rect_of st1 v) v \<and>
           0 < wrap32 (rc_right (clip_rect_of st1 v) - rc_left (clip_rect_of st1 v)) \<and>
           0 < wrap32 (rc_bottom (clip_rect_of st1 v) - rc_top (clip_rect_of st1 v)) \<and>
           8 dvd env_BITSPIXEL env \<and>
           read_header_alloc fp env st1 wnd (env_GetDC env wnd) (env_BITSPIXEL env)
             (clip_rect_of st1 v) = Inr (Inr (), st', calls)"
  using assms
  by (auto simp: gdigrab_read_header_def Let_def rect_within_def smod_8_dvd
      split: sum.splits prod.splits if_splits)

lemma read_header_registry:
  assumes "gdigrab_read_header fp env st g = Inr (res, st', g', tr)"
  shows "if reaches_enumeration env st
         then EnumDisplayMonitors (env_monitors env)
                (g\<lparr>rcCombined := SetRectEmpty, monitorsNum := 0\<rparr>) = Inr g'
         else g' = g"
  using assms
  by (auto simp: gdigrab_read_header_def reaches_enumeration_def Let_def
      split: sum.splits prod.splits if_splits)

lemma read_header_enum_fault:
  assumes "reaches_enumeration env st"
    and "EnumDisplayMonitors (env_monitors env)
           (g\<lparr>rcCombined := SetRectEmpty, monitorsNum := 0\<rparr>) = Inl f"
  shows "gdigrab_read_header fp env st g = Inl f"
  using assms
  by (auto simp: gdigrab_read_header_def reaches_enumeration_def Let_def
      split: sum.splits prod.splits)

text \<open>
  What the two tests of lines 493--528 do reject: once the target is resolved, its
  device context obtained and its virtual bounds computed, a clip rectangle whose stored
  coordinates are not within those bounds, or whose width or height as the source
  computes it is not positive, or a bit depth that is not a multiple of 8, makes the open
  return \<^verbatim>\<open>AVERROR(EIO)\<close> before any surface is created.
\<close>

lemma clip_validation:
  assumes "resolve_target env st = Inr (wnd, named, st1, logs)"
    and "env_GetDC env wnd \<noteq> 0"
    and "EnumDisplayMonitors (env_monitors env)
           (g\<lparr>rcCombined := SetRectEmpty, monitorsNum := 0\<rparr>) = Inr g1"
    and "virtual_rect_of env g1 wnd = Inr v"
    and "\<not> rect_within (clip_rect_of st1 v) v \<or>
         wrap32 (rc_right (clip_rect_of st1 v) - rc_left (clip_rect_of st1 v)) \<le> 0 \<or>
         wrap32 (rc_bottom (clip_rect_of st1 v) - rc_top (clip_rect_of st1 v)) \<le> 0 \<or>
         \<not> 8 dvd env_BITSPIXEL env"
  shows "\<exists>tr. gdigrab_read_header fp env st g = Inr (Inl EIO, st1, g1, tr) \<and>
              (\<forall>h. CreateCompatibleDC h \<notin> set tr \<and> CreateDIBSection h \<notin> set tr) \<and>
              dest_hdc st1 = dest_hdc st \<and> hbmp st1 = hbmp st \<and> buffer st1 = buffer st"
proof -
  from resolve_target_state [OF assms(1)]
  have same: "dest_hdc st1 = dest_hdc st \<and> hbmp st1 = hbmp st \<and> buffer st1 = buffer st"
    by auto
  let ?clip = "clip_rect_of st1 v"
  let ?src = "env_GetDC env wnd"
  show ?thesis
  proof (cases "rect_within ?clip v")
    case False
    then have "gdigrab_read_header fp env st g =
        Inr (Inl EIO, st1, g1,
             logs @ [GetDC wnd, av_log ''Capture area extends outside window area''] @
             error_cleanup wnd ?src 0 0)"
      using assms(1-4) by (auto simp: gdigrab_read_header_def Let_def rect_within_def)
    with same resolve_target_logs [OF assms(1)] error_cleanup_no_surface show ?thesis
      by auto
  next
    case True
    with assms(5) have bad:
      "wrap32 (rc_right ?clip - rc_left ?clip) \<le> 0 \<or>
       wrap32 (rc_bottom ?clip - rc_top ?clip) \<le> 0 \<or>
       env_BITSPIXEL env smod 8 \<noteq> 0"
      by (simp add: smod_8_dvd)
    from True have inside:
      "\<not> (rc_left ?clip < rc_left v \<or> rc_top ?clip < rc_top v \<or>
          rc_right ?clip > rc_right v \<or> rc_bottom ?clip > rc_bottom v)"
      by (auto simp: rect_within_def)
    have "gdigrab_read_header fp env st g =
        Inr (Inl EIO, st1, g1,
             logs @ [GetDC wnd, av_log ''Invalid properties, aborting''] @
             error_cleanup wnd ?src 0 0)"
      unfolding gdigrab_read_header_def using assms(1-4) inside bad
      by (simp add: Let_def)
    with same resolve_target_logs [OF assms(1)] error_cleanup_no_surface show ?thesis
      by auto
  qed
qed

text \<open>
  C4 is not what the code does.  The request \<^verbatim>\<open>video_size=100x50\<close>,
  \<^verbatim>\<open>offset_x=2147483600\<close>, \<^verbatim>\<open>offset_y=20\<close> on the 800x600 desktop asks for the
  columns 2147483600 to 2147483699, far outside the virtual bounds.  Line 489 adds width
  and offset in 32 bits and stores \<open>right = -2147483596\<close>; the containment test of
  lines 493--496 compares \<open>left\<close> with the left bound and \<open>right\<close> with the right
  bound only and passes; the width \<open>right - left\<close> of line 523 wraps to 100 and passes.
  The open creates the compatible context and the DIB section and returns 0, with a
  clip rectangle whose left edge lies to the right of the virtual bounds.
\<close>

theorem out_of_bounds_request_accepted:
  "width overflow_session = 100 \<and> height overflow_session = 50 \<and>
   offset_x overflow_session = 2147483600 \<and> offset_y overflow_session = 20 \<and>
   virtual_rect_of desktop_env registry_800x600 0 =
     Inr \<lparr>rc_left = 0, rc_top = 0, rc_right = 800, rc_bottom = 600\<rparr> \<and>
   \<not> rect_within
       \<lparr>rc_left = 2147483600, rc_top = 20, rc_right = 2147483600 + 100, rc_bottom = 20 + 50\<rparr>
       \<lparr>rc_left = 0, rc_top = 0, rc_right = 800, rc_bottom = 600\<rparr> \<and>
   gdigrab_read_header exact_double desktop_env overflow_session globals0 =
     Inr (Inr (), opened_overflow_session, registry_800x600,
          [GetDC 0, CreateCompatibleDC 1, CreateDIBSection 2, SelectObject 2 3]) \<and>
   clip_rect opened_overflow_session =
     \<lparr>rc_left = 2147483600, rc_top = 20, rc_right = - 2147483596, rc_bottom = 70\<rparr> \<and>
   hbmp opened_overflow_session = 3 \<and> buffer opened_overflow_session = 4"
proof -
  have "virtual_rect_of desktop_env registry_800x600 0 =
     Inr \<lparr>rc_left = 0, rc_top = 0, rc_right = 800, rc_bottom = 600\<rparr>"
    by (simp add: header_eval registry_eval)
  moreover have "\<not> rect_within
       \<lparr>rc_left = 2147483600, rc_top = 20, rc_right = 2147483600 + 100, rc_bottom = 20 + 50\<rparr>
       \<lparr>rc_left = 0, rc_top = 0, rc_right = 800, rc_bottom = 600\<rparr>"
    by (simp add: rect_within_def)
  moreover have "width overflow_session = 100 \<and> height overflow_session = 50 \<and>
      offset_x overflow_session = 2147483600 \<and> offset_y overflow_session = 20"
    by (simp add: overflow_session_def example_session_def)
  moreover have "clip_rect opened_overflow_session =
       \<lparr>rc_left = 2147483600, rc_top = 20, rc_right = - 2147483596, rc_bottom = 70\<rparr> \<and>
     hbmp opened_overflow_session = 3 \<and> buffer opened_overflow_session = 4"
    by (simp add: opened_overflow_session_def opened_session_def)
  ultimately show ?thesis using open_overflow by simp
qed




section \<open>The registry across sessions\<close>

lemma open_no_target:
  "gdigrab_read_header exact_double no_target_env example_session registry_800x600 =
     Inr (Inl EIO, example_session, registry_800x600,
          [av_log ''Please use desktop or title=<windowname> to specify your target''])"
  by (simp add: header_eval)

text \<open>
  C7, as the code has it.  The monitor table is one table of the process.  A call of
  \<^verbatim>\<open>gdigrab_read_header\<close> that fails before the enumeration leaves it as it was.  A
  call that gets as far as the enumeration resets the count and stores the monitors
  reported during that call.  If these are at most four, the table so rebuilt has their
  number as its count, the monitors themselves, in the order reported, as the entries
  below the count, and their union as the combined rectangle, none of which depends on
  what the table held before; and this is the table the call leaves whenever it returns,
  with success or with an error.  If they are more than four, the enumeration writes
  past the end of the array and the call has no defined result.
\<close>

theorem registry_rebuilt_at_open:
  assumes "length (monitors g) = nat MY_MAX_MONITORS"
  shows
   "(\<not> reaches_enumeration env st \<longrightarrow>
       (\<forall>res st' g' tr. gdigrab_read_header fp env st g = Inr (res, st', g', tr) \<longrightarrow> g' = g)) \<and>
    (reaches_enumeration env st \<and> int (length (env_monitors env)) \<le> MY_MAX_MONITORS \<longrightarrow>
       (\<exists>g1. EnumDisplayMonitors (env_monitors env)
                (g\<lparr>rcCombined := SetRectEmpty, monitorsNum := 0\<rparr>) = Inr g1 \<and>
             monitorsNum g1 = int (length (env_monitors env)) \<and>
             take (length (env_monitors env)) (monitors g1) =
               map monitor_of (env_monitors env) \<and>
             rcCombined g1 =
               foldl UnionRect SetRectEmpty (map lprcMonitor (env_monitors env)) \<and>
             (\<forall>res st' g' tr.
                 gdigrab_read_header fp env st g = Inr (res, st', g', tr) \<longrightarrow> g' = g1))) \<and>
    (reaches_enumeration env st \<and> MY_MAX_MONITORS < int (length (env_monitors env)) \<longrightarrow>
       gdigrab_read_header fp env st g = Inl (OutOfBounds MY_MAX_MONITORS))"
proof (intro conjI impI)
  assume "\<not> reaches_enumeration env st"
  then show "\<forall>res st' g' tr.
      gdigrab_read_header fp env st g = Inr (res, st', g', tr) \<longrightarrow> g' = g"
    using read_header_registry [of fp env st g] by auto
next
  let ?g = "g\<lparr>rcCombined := SetRectEmpty, monitorsNum := 0\<rparr>"
  let ?ds = "env_monitors env"
  assume a: "reaches_enumeration env st \<and> int (length ?ds) \<le> MY_MAX_MONITORS"
  have p1: "length (monitors ?g) = nat MY_MAX_MONITORS" using assms by simp
  have p2: "0 \<le> monitorsNum ?g" by simp
  from a have "monitorsNum ?g + int (length ?ds) \<le> MY_MAX_MONITORS" by simp
  from enum_fits [OF p2 this] obtain g1 where
    e: "EnumDisplayMonitors ?ds ?g = Inr g1" by blast
  note c = enum_content [OF e p1 p2]
  from c have "monitorsNum g1 = monitorsNum ?g + int (length ?ds)" by blast
  then have n: "monitorsNum g1 = int (length ?ds)" by simp
  from c have "take (nat (monitorsNum g1)) (monitors g1) =
      take (nat (monitorsNum ?g)) (monitors ?g) @ map monitor_of ?ds"
    by blast
  then have "take (nat (monitorsNum g1)) (monitors g1) = map monitor_of ?ds" by simp
  moreover from n have "nat (monitorsNum g1) = length ?ds" by simp
  ultimately have t: "take (length ?ds) (monitors g1) = map monitor_of ?ds" by simp
  from c have "rcCombined g1 = foldl UnionRect (rcCombined ?g) (map lprcMonitor ?ds)"
    by blast
  then have u: "rcCombined g1 = foldl UnionRect SetRectEmpty (map lprcMonitor ?ds)"
    by simp
  have r: "\<forall>res st' g' tr.
      gdigrab_read_header fp env st g = Inr (res, st', g', tr) \<longrightarrow> g' = g1"
  proof (intro allI impI)
    fix res st' g' tr
    assume "gdigrab_read_header fp env st g = Inr (res, st', g', tr)"
    from read_header_registry [OF this] a have "EnumDisplayMonitors ?ds ?g = Inr g'"
      by simp
    with e show "g' = g1" by simp
  qed
  from e n t u r show "\<exists>g1. EnumDisplayMonitors ?ds ?g = Inr g1 \<and>
      monitorsNum g1 = int (length ?ds) \<and>
      take (length ?ds) (monitors g1) = map monitor_of ?ds \<and>
      rcCombined g1 = foldl UnionRect SetRectEmpty (map lprcMonitor ?ds) \<and>
      (\<forall>res st' g' tr.
          gdigrab_read_header fp env st g = Inr (res, st', g', tr) \<longrightarrow> g' = g1)"
    by blast
next
  let ?g = "g\<lparr>rcCombined := SetRectEmpty, monitorsNum := 0\<rparr>"
  assume a: "reaches_enumeration env st \<and> MY_MAX_MONITORS < int (length (env_monitors env))"
  have p2: "0 \<le> monitorsNum ?g" and p3: "monitorsNum ?g \<le> MY_MAX_MONITORS"
    by (simp_all add: MY_MAX_MONITORS_def)
  from a have "MY_MAX_MONITORS < monitorsNum ?g + int (length (env_monitors env))" by simp
  from enum_overflows [OF p2 p3 this]
  have "EnumDisplayMonitors (env_monitors env) ?g = Inl (OutOfBounds MY_MAX_MONITORS)" .
  with a show "gdigrab_read_header fp env st g = Inl (OutOfBounds MY_MAX_MONITORS)"
    using read_header_enum_fault by blast
qed

theorem registry_rebuilt_at_open_witness:
  "length (monitors registry_800x600) = nat MY_MAX_MONITORS \<and>
   \<not> reaches_enumeration no_target_env example_session \<and>
   registry_after
     (gdigrab_read_header exact_double no_target_env example_session registry_800x600) =
     Some registry_800x600 \<and>
   reaches_enumeration desktop_env_1920 example_session \<and>
   int (length (env_monitors desktop_env_1920)) \<le> MY_MAX_MONITORS \<and>
   registry_after
     (gdigrab_read_header exact_double desktop_env_1920 example_session registry_800x600) =
     Some registry_1920x1080 \<and>
   monitorsNum registry_1920x1080 = 1 \<and>
   take 1 (monitors registry_1920x1080) = [monitor_of display_1920x1080] \<and>
   rcCombined registry_1920x1080 = lprcMonitor display_1920x1080 \<and>
   reaches_enumeration desktop_env_five example_session \<and>
   MY_MAX_MONITORS < int (length (env_monitors desktop_env_five)) \<and>
   gdigrab_read_header exact_double desktop_env_five example_session registry_800x600 =
     Inl (OutOfBounds 4)"
proof -
  have l: "length (monitors registry_800x600) = nat MY_MAX_MONITORS"
    by (simp add: registry_eval)
  have nr: "\<not> reaches_enumeration no_target_env example_session"
    by (simp add: reaches_enumeration_def header_eval)
  have r: "reaches_enumeration desktop_env_1920 example_session"
    and n: "int (length (env_monitors desktop_env_1920)) \<le> MY_MAX_MONITORS"
    by (simp_all add: reaches_enumeration_def header_eval MY_MAX_MONITORS_def)
  have r5: "reaches_enumeration desktop_env_five example_session"
    and n5: "MY_MAX_MONITORS < int (length (env_monitors desktop_env_five))"
    by (simp_all add: reaches_enumeration_def header_eval MY_MAX_MONITORS_def)
  note t0 = registry_rebuilt_at_open
    [OF l, of no_target_env example_session exact_double]
  note t1 = registry_rebuilt_at_open
    [OF l, of desktop_env_1920 example_session exact_double]
  note t5 = registry_rebuilt_at_open
    [OF l, of desktop_env_five example_session exact_double]
  from t0 nr open_no_target have a0: "registry_after
     (gdigrab_read_header exact_double no_target_env example_session registry_800x600) =
     Some registry_800x600"
    by (simp add: registry_after_def)
  from t1 r n obtain g1 where
    g1: "monitorsNum g1 = int (length (env_monitors desktop_env_1920))"
        "take (length (env_monitors desktop_env_1920)) (monitors g1) =
           map monitor_of (env_monitors desktop_env_1920)"
        "rcCombined g1 =
           foldl UnionRect SetRectEmpty (map lprcMonitor (env_monitors desktop_env_1920))"
    and same: "\<forall>res st' g' tr.
        gdigrab_read_header exact_double desktop_env_1920 example_session registry_800x600 =
          Inr (res, st', g', tr) \<longrightarrow> g' = g1"
    by blast
  from same open_example_1920 have eq: "registry_1920x1080 = g1" by blast
  have b: "monitorsNum registry_1920x1080 = int (length (env_monitors desktop_env_1920)) \<and>
      take (length (env_monitors desktop_env_1920)) (monitors registry_1920x1080) =
        map monitor_of (env_monitors desktop_env_1920) \<and>
      rcCombined registry_1920x1080 =
        foldl UnionRect SetRectEmpty (map lprcMonitor (env_monitors desktop_env_1920))"
    unfolding eq using g1 by blast
  from b have a1: "monitorsNum registry_1920x1080 = 1 \<and>
      take 1 (monitors registry_1920x1080) = [monitor_of display_1920x1080] \<and>
      rcCombined registry_1920x1080 = lprcMonitor display_1920x1080"
    by (simp add: desktop_env_1920_def desktop_env_def display_1920x1080_def
        UnionRect_def IsRectEmpty_def SetRectEmpty_def)
  have a1': "registry_after
     (gdigrab_read_header exact_double desktop_env_1920 example_session registry_800x600) =
     Some registry_1920x1080"
    by (simp add: open_example_1920 registry_after_def)
  from t5 r5 n5 have a5:
    "gdigrab_read_header exact_double desktop_env_five example_session registry_800x600 =
       Inl (OutOfBounds 4)"
    by (simp add: MY_MAX_MONITORS_def)
  from l nr a0 r n a1' a1 r5 n5 a5 show ?thesis by blast
qed

text \<open>
  C7, as the claim has it, fails.  A first session is opened while one 800x600 monitor
  is attached; a second session is opened in the same process after the monitor has
  become 1920x1080.  The second open replaces the table that the first one built: the
  point (1000, 100), on no monitor before, is on monitor 0 afterwards.
\<close>

theorem registry_shared_counterexample:
  "registry_after (gdigrab_read_header exact_double desktop_env example_session globals0) =
     Some registry_800x600 \<and>
   registry_after
     (gdigrab_read_header exact_double desktop_env_1920 example_session registry_800x600) =
     Some registry_1920x1080 \<and>
   registry_1920x1080 \<noteq> registry_800x600 \<and>
   get_monitor_id_by_logical_point registry_800x600 1000 100 = Inr (- 1) \<and>
   get_monitor_id_by_logical_point registry_1920x1080 1000 100 = Inr 0"
  by (simp add: open_example open_example_1920 registry_after_def registry_eval header_eval)


section \<open>Properties of \<^verbatim>\<open>gdigrab_read_packet\<close>\<close>

lemmas packet_eval =
  gdigrab_read_packet_def frame_delay_def frame_late_def paint_mouse_pointer_def
  gdigrab_region_wnd_update_def CURSOR_SHOWING_def pointer_pos_def CURSOR_ERROR_def
  icon_cleanup_def c_div_def signed_divide_int_def read_at_def pointer_at_def
  exact_double_def opened_session_def t0_def Let_def wrap32_def

lemma paint_mouse_pointer_state:
  "paint_mouse_pointer env st = Inr (st', tr) \<Longrightarrow>
   st' = st \<or> st' = st\<lparr>cursor_error_printed := 1\<rparr>"
  by (auto simp: paint_mouse_pointer_def CURSOR_ERROR_def Let_def
      split: if_splits sum.splits option.splits prod.splits)

lemma frame_wait_emits:
  "frame_wait fp tb nonblock readings tf = Some (Inr (curtime, tf')) \<Longrightarrow>
   curtime \<in> set readings \<and> frame_delay fp tb tf curtime \<le> 0 \<and>
   tf' = (if frame_late fp tb (frame_delay fp tb tf curtime) then tf + 1000000 else tf)"
proof (induction readings)
  case Nil
  then show ?case by simp
next
  case (Cons c cs)
  show ?case
  proof (cases "frame_delay fp tb tf c \<le> 0")
    case True
    with Cons.prems show ?thesis by (auto simp: Let_def)
  next
    case False
    with Cons.prems have "frame_wait fp tb nonblock cs tf = Some (Inr (curtime, tf'))"
      by (auto simp: Let_def split: if_splits)
    from Cons.IH [OF this] show ?thesis by simp
  qed
qed

lemma frame_wait_nonblock:
  "0 < frame_delay fp tb tf curtime \<Longrightarrow>
   frame_wait fp tb True (curtime # later) tf = Some (Inl EAGAIN)"
  by (simp add: Let_def)

lemma read_packet_emits:
  assumes "gdigrab_read_packet fp env st = Some (Inr (Inr (n, pkt), st', tr))"
  shows "\<exists>tf'. frame_wait fp (time_base st) (AVFMT_FLAG_NONBLOCK env) (env_clock env)
                 (time_frame st + 1000000) = Some (Inr (pkt_pts pkt, tf')) \<and>
               time_frame st' = tf' \<and>
               pkt_size pkt = header_size st + frame_size st \<and>
               n = header_size st + frame_size st \<and>
               header_size st' = header_size st \<and> frame_size st' = frame_size st"
proof -
  from assms obtain curtime tf' where
    w: "frame_wait fp (time_base st) (AVFMT_FLAG_NONBLOCK env) (env_clock env)
          (time_frame st + 1000000) = Some (Inr (curtime, tf'))"
    by (auto simp: gdigrab_read_packet_def Let_def split: option.splits sum.splits)
  from assms w obtain st1 calls where
    p: "(if draw_mouse st \<noteq> 0 then paint_mouse_pointer (env_cursor env) st else Inr (st, []))
          = Inr (st1, calls)"
    and r: "n = header_size st1 + frame_size st1"
           "pkt = \<lparr>pkt_size = header_size st + frame_size st, pkt_pts = curtime\<rparr>"
           "st' = st1\<lparr>time_frame := tf'\<rparr>"
    by (auto simp: gdigrab_read_packet_def Let_def split: if_splits sum.splits)
  from p have "st1 = st \<or> st1 = st\<lparr>cursor_error_printed := 1\<rparr>"
    using paint_mouse_pointer_state by (auto split: if_splits)
  with r w show ?thesis by auto
qed

text \<open>A frame that is due at the first clock reading is emitted, in either mode.\<close>

lemma read_packet_due:
  assumes "env_clock env = curtime # later"
    and "frame_delay fp (time_base st) (time_frame st + 1000000) curtime \<le> 0"
    and "env_av_new_packet env" and "env_BitBlt env" and "draw_mouse st = 0"
  shows "gdigrab_read_packet fp env st =
     Some (Inr (Inr (header_size st + frame_size st,
                     \<lparr>pkt_size = header_size st + frame_size st, pkt_pts = curtime\<rparr>),
                st\<lparr>time_frame :=
                     (if frame_late fp (time_base st)
                           (frame_delay fp (time_base st) (time_frame st + 1000000) curtime)
                      then time_frame st + 2000000 else time_frame st + 1000000)\<rparr>,
                (if show_region st \<noteq> 0 then gdigrab_region_wnd_update (env_pending env) st
                 else []) @ [BitBlt (dest_hdc st) (source_hdc st)]))"
  using assms by (simp add: gdigrab_read_packet_def Let_def)

lemma read_first:
  "gdigrab_read_packet exact_double (read_at False [t0 + 1000000]) opened_session =
     Some (Inr (Inr (20054, \<lparr>pkt_size = 20054, pkt_pts = t0 + 1000000\<rparr>),
                opened_session\<lparr>time_frame := t0 + 1000000\<rparr>,
                [BitBlt 2 1, CopyCursor 20]))"
  by (simp add: packet_eval)

lemma read_second:
  "gdigrab_read_packet exact_double (read_at False [t0 + 2500000])
       (opened_session\<lparr>time_frame := t0 + 1000000\<rparr>) =
     Some (Inr (Inr (20054, \<lparr>pkt_size = 20054, pkt_pts = t0 + 2500000\<rparr>),
                opened_session\<lparr>time_frame := t0 + 2000000\<rparr>,
                [BitBlt 2 1, CopyCursor 20]))"
  by (simp add: packet_eval)

lemma read_stalled:
  "gdigrab_read_packet exact_double (read_at False [t0 + 5000000]) opened_session =
     Some (Inr (Inr (20054, \<lparr>pkt_size = 20054, pkt_pts = t0 + 5000000\<rparr>),
                opened_session\<lparr>time_frame := t0 + 2000000\<rparr>,
                [BitBlt 2 1, CopyCursor 20]))"
  by (simp add: packet_eval)


subsection \<open>Pacing\<close>

text \<open>
  C1, as the code has it.  A call that emits a packet advances \<^verbatim>\<open>time_frame\<close> by exactly
  one tick (1000000 units), or by exactly two ticks when the delay computed from the
  clock reading at emission is below minus one tick; never by more, never by less.  The
  packet's time stamp is that clock reading, taken when the frame is due or overdue.
\<close>

theorem time_frame_advances_by_ticks:
  "gdigrab_read_packet fp env st = Some (Inr (Inr (n, pkt), st', tr)) \<Longrightarrow>
   pkt_pts pkt \<in> set (env_clock env) \<and>
   frame_delay fp (time_base st) (time_frame st + 1000000) (pkt_pts pkt) \<le> 0 \<and>
   time_frame st' - time_frame st =
     (if frame_late fp (time_base st)
           (frame_delay fp (time_base st) (time_frame st + 1000000) (pkt_pts pkt))
      then 2000000 else 1000000)"
proof -
  assume a: "gdigrab_read_packet fp env st = Some (Inr (Inr (n, pkt), st', tr))"
  from read_packet_emits [OF a] obtain tf' where
    w: "frame_wait fp (time_base st) (AVFMT_FLAG_NONBLOCK env) (env_clock env)
          (time_frame st + 1000000) = Some (Inr (pkt_pts pkt, tf'))"
    and t: "time_frame st' = tf'" by blast
  from frame_wait_emits [OF w] t show ?thesis by auto
qed

theorem time_frame_advances_by_ticks_witness:
  "time_frame (opened_session\<lparr>time_frame := t0 + 1000000\<rparr>) - time_frame opened_session = 1000000 \<and>
   \<not> frame_late exact_double (time_base opened_session)
       (frame_delay exact_double (time_base opened_session)
          (time_frame opened_session + 1000000) (t0 + 1000000)) \<and>
   time_frame (opened_session\<lparr>time_frame := t0 + 2000000\<rparr>) - time_frame opened_session = 2000000 \<and>
   frame_late exact_double (time_base opened_session)
       (frame_delay exact_double (time_base opened_session)
          (time_frame opened_session + 1000000) (t0 + 5000000))"
proof -
  note a = time_frame_advances_by_ticks [OF read_first]
  note b = time_frame_advances_by_ticks [OF read_stalled]
  have l1: "\<not> frame_late exact_double (time_base opened_session)
       (frame_delay exact_double (time_base opened_session)
          (time_frame opened_session + 1000000) (t0 + 1000000))"
    by (simp add: packet_eval)
  have l2: "frame_late exact_double (time_base opened_session)
       (frame_delay exact_double (time_base opened_session)
          (time_frame opened_session + 1000000) (t0 + 5000000))"
    by (simp add: packet_eval)
  from a l1 have "time_frame (opened_session\<lparr>time_frame := t0 + 1000000\<rparr>)
      - time_frame opened_session = 1000000"
    by simp
  moreover from b l2 have "time_frame (opened_session\<lparr>time_frame := t0 + 2000000\<rparr>)
      - time_frame opened_session = 2000000"
    by simp
  ultimately show ?thesis using l1 l2 by blast
qed


text \<open>
  C1, as the claim has it, fails: the time stamp of a packet is the clock reading at
  emission (\<^verbatim>\<open>pkt->pts = curtime\<close>), not the due time.  At one frame per second (a tick
  of 1000000 microseconds) a first packet is emitted on time at \<open>t0 + 1000000\<close>; the
  caller comes back half a tick late, which is no stall exceeding one tick and skips
  nothing (\<^verbatim>\<open>time_frame\<close> advances by one tick), and the second packet is stamped
  \<open>t0 + 2500000\<close>: the two time stamps differ by one tick and a half.
\<close>

theorem packet_timestamp_counterexample:
  "gdigrab_read_packet exact_double (read_at False [t0 + 1000000]) opened_session =
     Some (Inr (Inr (20054, \<lparr>pkt_size = 20054, pkt_pts = t0 + 1000000\<rparr>),
                opened_session\<lparr>time_frame := t0 + 1000000\<rparr>,
                [BitBlt 2 1, CopyCursor 20])) \<and>
   gdigrab_read_packet exact_double (read_at False [t0 + 2500000])
       (opened_session\<lparr>time_frame := t0 + 1000000\<rparr>) =
     Some (Inr (Inr (20054, \<lparr>pkt_size = 20054, pkt_pts = t0 + 2500000\<rparr>),
                opened_session\<lparr>time_frame := t0 + 2000000\<rparr>,
                [BitBlt 2 1, CopyCursor 20])) \<and>
   fmul exact_double (of_int64 exact_double 1000000)
     (av_q2d exact_double (time_base opened_session)) = 1000000 \<and>
   \<not> frame_late exact_double (time_base opened_session)
       (frame_delay exact_double (time_base opened_session) (t0 + 2000000) (t0 + 2500000)) \<and>
   (t0 + 2500000) - (t0 + 1000000) = 1500000"
  by (simp add: read_first read_second) (simp add: packet_eval)


subsection \<open>Non-blocking reads\<close>

text \<open>
  C6.  In non-blocking mode, when the first clock reading finds the next frame not yet
  due (the delay is positive), the call returns \<^verbatim>\<open>AVERROR(EAGAIN)\<close> and the session
  state is the one it was given, \<^verbatim>\<open>time_frame\<close> included; the only calls made are the
  dispatches of the messages pending for the outline window.
\<close>

theorem nonblocking_not_due_returns_eagain:
  "AVFMT_FLAG_NONBLOCK env \<Longrightarrow> env_clock env = curtime # later \<Longrightarrow>
   0 < frame_delay fp (time_base st) (time_frame st + 1000000) curtime \<Longrightarrow>
   gdigrab_read_packet fp env st =
     Some (Inr (Inl EAGAIN, st,
                if show_region st \<noteq> 0 then gdigrab_region_wnd_update (env_pending env) st
                else []))"
  by (simp add: gdigrab_read_packet_def Let_def)

theorem nonblocking_not_due_returns_eagain_witness:
  "AVFMT_FLAG_NONBLOCK (read_at True [t0 + 10]) \<and>
   env_clock (read_at True [t0 + 10]) = [t0 + 10] \<and>
   frame_delay exact_double (time_base opened_session) (time_frame opened_session + 1000000)
     (t0 + 10) = 999990 \<and>
   gdigrab_read_packet exact_double (read_at True [t0 + 10]) opened_session =
     Some (Inr (Inl EAGAIN, opened_session, []))"
proof -
  have nb: "AVFMT_FLAG_NONBLOCK (read_at True [t0 + 10])"
    and cl: "env_clock (read_at True [t0 + 10]) = (t0 + 10) # []"
    by (simp_all add: read_at_def)
  have d: "frame_delay exact_double (time_base opened_session)
      (time_frame opened_session + 1000000) (t0 + 10) = 999990"
    by (simp add: packet_eval)
  then have pos: "0 < frame_delay exact_double (time_base opened_session)
      (time_frame opened_session + 1000000) (t0 + 10)"
    by simp
  have sr: "show_region opened_session = 0" by (simp add: opened_session_def)
  from nonblocking_not_due_returns_eagain [OF nb cl pos] sr
  have "gdigrab_read_packet exact_double (read_at True [t0 + 10]) opened_session =
     Some (Inr (Inl EAGAIN, opened_session, []))"
    by simp
  with nb cl d show ?thesis by simp
qed


subsection \<open>Packet length\<close>

text \<open>
  C2.  A successful open sets \<^verbatim>\<open>header_size\<close> to 14 + 40 plus a palette of
  \<open>2 ^ bpp\<close> entries of 4 bytes when the bit depth \<open>bpp\<close> is at most 8, and
  \<^verbatim>\<open>frame_size\<close> to the byte size of the bitmap behind the back buffer (bytes per row
  times rows times planes).  Every read that emits a packet allocates it with
  \<open>header_size + frame_size\<close> bytes, returns that number, and leaves both sizes as they
  are.
\<close>

theorem packet_length_contract:
  "(gdigrab_read_header fp env st g = Inr (Inr (), st', g', tr) \<longrightarrow>
      0 \<le> env_BITSPIXEL env \<and>
      header_size st' =
        14 + 40 + (if env_BITSPIXEL env \<le> 8 then 2 ^ nat (env_BITSPIXEL env) * 4 else 0) \<and>
      frame_size st' = bmWidthBytes env * bmHeight env * bmPlanes env) \<and>
   (gdigrab_read_packet fp renv s = Some (Inr (Inr (n, pkt), s', tr')) \<longrightarrow>
      pkt_size pkt = header_size s + frame_size s \<and>
      n = header_size s + frame_size s \<and>
      header_size s' = header_size s \<and> frame_size s' = frame_size s)"
proof (intro conjI impI)
  assume "gdigrab_read_header fp env st g = Inr (Inr (), st', g', tr)"
  from read_header_success [OF this] obtain wnd named st1 logs v calls where
    a: "read_header_alloc fp env st1 wnd (env_GetDC env wnd) (env_BITSPIXEL env)
          (clip_rect_of st1 v) = Inr (Inr (), st', calls)"
    by blast
  note r = read_header_alloc_ok [OF a]
  from r show "0 \<le> env_BITSPIXEL env" by blast
  from r show "header_size st' =
      14 + 40 + (if env_BITSPIXEL env \<le> 8 then 2 ^ nat (env_BITSPIXEL env) * 4 else 0)"
    by blast
  from r show "frame_size st' = bmWidthBytes env * bmHeight env * bmPlanes env"
    by blast
next
  assume "gdigrab_read_packet fp renv s = Some (Inr (Inr (n, pkt), s', tr'))"
  note e = read_packet_emits [OF this]
  from e show "pkt_size pkt = header_size s + frame_size s" by blast
  from e show "n = header_size s + frame_size s" by blast
  from e show "header_size s' = header_size s" by blast
  from e show "frame_size s' = frame_size s" by blast
qed

theorem packet_length_contract_witness:
  "header_size opened_session = 54 \<and> frame_size opened_session = 20000 \<and>
   header_size (opened_session\<lparr>frame_size := 5000, header_size := 1078,
                               bmi := (bmi opened_session)\<lparr>biBitCount := 8\<rparr>\<rparr>) =
     14 + 40 + 2 ^ 8 * 4 \<and>
   gdigrab_read_packet exact_double (read_at False [t0 + 1000000]) opened_session =
     Some (Inr (Inr (20054, \<lparr>pkt_size = 20054, pkt_pts = t0 + 1000000\<rparr>),
                opened_session\<lparr>time_frame := t0 + 1000000\<rparr>,
                [BitBlt 2 1, CopyCursor 20])) \<and>
   pkt_size \<lparr>pkt_size = 20054, pkt_pts = t0 + 1000000\<rparr> =
     header_size opened_session + frame_size opened_session"
proof -
  note o = packet_length_contract [where fp = exact_double and env = desktop_env
      and st = example_session and g = globals0 and st' = opened_session
      and g' = registry_800x600 and renv = "read_at False [t0 + 1000000]"
      and s = opened_session and n = 20054
      and pkt = "\<lparr>pkt_size = 20054, pkt_pts = t0 + 1000000\<rparr>"
      and s' = "opened_session\<lparr>time_frame := t0 + 1000000\<rparr>"
      and tr' = "[BitBlt 2 1, CopyCursor 20]"]
  note p = packet_length_contract [where fp = exact_double and env = desktop_env_8bpp
      and st = example_session and g = globals0
      and st' = "opened_session\<lparr>frame_size := 5000, header_size := 1078,
                      bmi := (bmi opened_session)\<lparr>biBitCount := 8\<rparr>\<rparr>"
      and g' = registry_800x600]
  from o open_example read_first have
    "header_size opened_session =
       14 + 40 + (if env_BITSPIXEL desktop_env \<le> 8 then 2 ^ nat (env_BITSPIXEL desktop_env) * 4 else 0)"
    "frame_size opened_session =
       bmWidthBytes desktop_env * bmHeight desktop_env * bmPlanes desktop_env"
    "pkt_size \<lparr>pkt_size = 20054, pkt_pts = t0 + 1000000\<rparr> =
       header_size opened_session + frame_size opened_session"
    by blast+
  moreover from p open_example_8bpp have
    "header_size (opened_session\<lparr>frame_size := 5000, header_size := 1078,
                               bmi := (bmi opened_session)\<lparr>biBitCount := 8\<rparr>\<rparr>) =
       14 + 40 + (if env_BITSPIXEL desktop_env_8bpp \<le> 8
                  then 2 ^ nat (env_BITSPIXEL desktop_env_8bpp) * 4 else 0)"
    by blast
  ultimately show ?thesis
    using read_first by (simp add: desktop_env_def desktop_env_8bpp_def)
qed

section \<open>Properties of \<^verbatim>\<open>paint_mouse_pointer\<close>\<close>

lemma CURSOR_ERROR_no_draw:
  "CURSOR_ERROR st str = (st1, logs) \<Longrightarrow> DrawIcon h px py ic \<notin> set logs"
  by (auto simp: CURSOR_ERROR_def split: if_splits)

lemma icon_cleanup_no_draw: "DrawIcon h px py ic \<notin> set (icon_cleanup a b c)"
  by (simp add: icon_cleanup_def)

lemma paint_draw_guard:
  assumes "paint_mouse_pointer env st = Inr (st', tr)" and "DrawIcon h px py ic \<in> set tr"
  shows "ci_flags env = CURSOR_SHOWING \<and> pointer_pos env st = Inr (Some (px, py)) \<and>
         0 \<le> px \<and> px \<le> wrap32 (rc_right (clip_rect st) - rc_left (clip_rect st)) \<and>
         0 \<le> py \<and> py \<le> wrap32 (rc_bottom (clip_rect st) - rc_top (clip_rect st))"
  using assms
  by (auto simp: paint_mouse_pointer_def Let_def icon_cleanup_no_draw
      split: if_splits sum.splits option.splits prod.splits
      dest: CURSOR_ERROR_no_draw)

lemma paint_hidden:
  assumes "ci_flags env \<noteq> CURSOR_SHOWING"
  shows "\<exists>st' tr. paint_mouse_pointer env st = Inr (st', tr) \<and>
                  (\<forall>h px py ic. DrawIcon h px py ic \<notin> set tr)"
  using assms
  by (auto simp: paint_mouse_pointer_def CURSOR_ERROR_def)

lemma paint_returns:
  assumes "pointer_pos env st = Inr p"
  shows "\<exists>st1 tr1. paint_mouse_pointer env st = Inr (st1, tr1)"
  using assms
  by (auto simp: paint_mouse_pointer_def CURSOR_ERROR_def Let_def
      split: option.splits prod.splits)

lemma paint_out_of_range:
  assumes "pointer_pos env st = Inr (Some (qx, qy))"
    and "\<not> (0 \<le> qx \<and> qx \<le> wrap32 (rc_right (clip_rect st) - rc_left (clip_rect st)) \<and>
            0 \<le> qy \<and> qy \<le> wrap32 (rc_bottom (clip_rect st) - rc_top (clip_rect st)))"
  shows "\<exists>st1 tr1. paint_mouse_pointer env st = Inr (st1, tr1) \<and>
                   (\<forall>h1 px1 py1 ic1. DrawIcon h1 px1 py1 ic1 \<notin> set tr1)"
proof -
  from paint_returns [OF assms(1)] obtain st1 tr1 where
    r: "paint_mouse_pointer env st = Inr (st1, tr1)" by blast
  have "\<forall>h1 px1 py1 ic1. DrawIcon h1 px1 py1 ic1 \<notin> set tr1"
  proof (intro allI notI)
    fix h1 px1 py1 ic1
    assume "DrawIcon h1 px1 py1 ic1 \<in> set tr1"
    from paint_draw_guard [OF r this] assms show False by simp
  qed
  with r show ?thesis by blast
qed

text \<open>
  C8, as the code has it.  \<^verbatim>\<open>DrawIcon\<close> is called only when the pointer is in the
  state \<^verbatim>\<open>CURSOR_SHOWING\<close> and the computed top-left corner \<open>(px, py)\<close> satisfies
  \<open>0 \<le> px \<le> width\<close> and \<open>0 \<le> py \<le> height\<close>, where width and height are
  \<^verbatim>\<open>right - left\<close> and \<^verbatim>\<open>bottom - top\<close> of the clip rectangle as the source computes
  them, both ends included.  When the pointer is not showing, and when the computed
  top-left corner lies outside that range, the function returns without drawing.
\<close>

theorem cursor_drawn_only_when_showing_in_bounds:
  "(paint_mouse_pointer env st = Inr (st', tr) \<and> DrawIcon h px py ic \<in> set tr \<longrightarrow>
      ci_flags env = CURSOR_SHOWING \<and> pointer_pos env st = Inr (Some (px, py)) \<and>
      0 \<le> px \<and> px \<le> wrap32 (rc_right (clip_rect st) - rc_left (clip_rect st)) \<and>
      0 \<le> py \<and> py \<le> wrap32 (rc_bottom (clip_rect st) - rc_top (clip_rect st))) \<and>
   (ci_flags env \<noteq> CURSOR_SHOWING \<longrightarrow>
      (\<exists>st1 tr1. paint_mouse_pointer env st = Inr (st1, tr1) \<and>
                 (\<forall>h1 px1 py1 ic1. DrawIcon h1 px1 py1 ic1 \<notin> set tr1))) \<and>
   (pointer_pos env st = Inr (Some (qx, qy)) \<and>
    \<not> (0 \<le> qx \<and> qx \<le> wrap32 (rc_right (clip_rect st) - rc_left (clip_rect st)) \<and>
       0 \<le> qy \<and> qy \<le> wrap32 (rc_bottom (clip_rect st) - rc_top (clip_rect st))) \<longrightarrow>
      (\<exists>st1 tr1. paint_mouse_pointer env st = Inr (st1, tr1) \<and>
                 (\<forall>h1 px1 py1 ic1. DrawIcon h1 px1 py1 ic1 \<notin> set tr1)))"
  using paint_draw_guard [of env st st' tr h px py ic] paint_hidden [of env st]
    paint_out_of_range [of env st qx qy]
  by blast

lemma paint_showing:
  "paint_mouse_pointer (pointer_at 1 60 45) opened_session =
     Inr (opened_session,
          [CopyCursor 20, DrawIcon 2 50 25 21, DeleteObject 24, DeleteObject 25,
           DestroyCursor 21])"
  by (simp add: packet_eval)

lemma paint_outside:
  "paint_mouse_pointer (pointer_at 1 500 45) opened_session =
     Inr (opened_session,
          [CopyCursor 20, DeleteObject 24, DeleteObject 25, DestroyCursor 21])"
  by (simp add: packet_eval)

lemma paint_not_showing:
  "paint_mouse_pointer (pointer_at 0 60 45) opened_session =
     Inr (opened_session, [CopyCursor 20])"
  by (simp add: packet_eval)

theorem cursor_drawn_only_when_showing_in_bounds_witness:
  "paint_mouse_pointer (pointer_at 1 60 45) opened_session =
     Inr (opened_session,
          [CopyCursor 20, DrawIcon 2 50 25 21, DeleteObject 24, DeleteObject 25,
           DestroyCursor 21]) \<and>
   ci_flags (pointer_at 1 60 45) = CURSOR_SHOWING \<and>
   pointer_pos (pointer_at 1 60 45) opened_session = Inr (Some (50, 25)) \<and>
   wrap32 (rc_right (clip_rect opened_session) - rc_left (clip_rect opened_session)) = 100 \<and>
   wrap32 (rc_bottom (clip_rect opened_session) - rc_top (clip_rect opened_session)) = 50 \<and>
   ci_flags (pointer_at 0 60 45) \<noteq> CURSOR_SHOWING \<and>
   paint_mouse_pointer (pointer_at 0 60 45) opened_session =
     Inr (opened_session, [CopyCursor 20]) \<and>
   pointer_pos (pointer_at 1 500 45) opened_session = Inr (Some (490, 25)) \<and>
   paint_mouse_pointer (pointer_at 1 500 45) opened_session =
     Inr (opened_session,
          [CopyCursor 20, DeleteObject 24, DeleteObject 25, DestroyCursor 21])"
proof -
  note t = cursor_drawn_only_when_showing_in_bounds
    [where env = "pointer_at 1 60 45" and st = opened_session and st' = opened_session
       and tr = "[CopyCursor 20, DrawIcon 2 50 25 21, DeleteObject 24, DeleteObject 25,
                  DestroyCursor 21]"
       and h = 2 and px = 50 and py = 25 and ic = 21]
  from t paint_showing have
    a: "ci_flags (pointer_at 1 60 45) = CURSOR_SHOWING \<and>
        pointer_pos (pointer_at 1 60 45) opened_session = Inr (Some (50, 25))"
    by simp
  have hid: "ci_flags (pointer_at 0 60 45) \<noteq> CURSOR_SHOWING"
    by (simp add: pointer_at_def CURSOR_SHOWING_def)
  note u = cursor_drawn_only_when_showing_in_bounds
    [where env = "pointer_at 0 60 45" and st = opened_session]
  from u hid have "\<exists>st1 tr1. paint_mouse_pointer (pointer_at 0 60 45) opened_session =
      Inr (st1, tr1) \<and> (\<forall>h1 px1 py1 ic1. DrawIcon h1 px1 py1 ic1 \<notin> set tr1)"
    by blast
  have sz:
    "wrap32 (rc_right (clip_rect opened_session) - rc_left (clip_rect opened_session)) = 100"
    "wrap32 (rc_bottom (clip_rect opened_session) - rc_top (clip_rect opened_session)) = 50"
    by (simp_all add: opened_session_def wrap32_def)
  have pos: "pointer_pos (pointer_at 1 500 45) opened_session = Inr (Some (490, 25))"
    by (simp add: packet_eval)
  note v = cursor_drawn_only_when_showing_in_bounds
    [where env = "pointer_at 1 500 45" and st = opened_session and qx = 490 and qy = 25]
  from v pos sz have "\<exists>st1 tr1. paint_mouse_pointer (pointer_at 1 500 45) opened_session =
      Inr (st1, tr1) \<and> (\<forall>h1 px1 py1 ic1. DrawIcon h1 px1 py1 ic1 \<notin> set tr1)"
    by simp
  from a hid sz pos paint_showing paint_not_showing paint_outside show ?thesis by simp
qed

text \<open>
  C8, as the claim has it, fails at the far edges.  The back buffer of the opened example
  session is 100 pixels wide and 50 high: its columns are 0 to 99, its rows 0 to 49.
  With the pointer showing at the screen position (110, 70) the computed top-left corner
  is (100, 50), on no pixel of the buffer, and the test of lines 685--686, which admits
  \<open>px = width\<close> and \<open>py = height\<close>, lets \<^verbatim>\<open>DrawIcon\<close> be called there.
\<close>

theorem cursor_far_edge_counterexample:
  "ci_flags (pointer_at 1 110 70) = CURSOR_SHOWING \<and>
   pointer_pos (pointer_at 1 110 70) opened_session = Inr (Some (100, 50)) \<and>
   biWidth (bmi opened_session) = 100 \<and> biHeight (bmi opened_session) = - 50 \<and>
   \<not> 100 < biWidth (bmi opened_session) \<and> \<not> 50 < - biHeight (bmi opened_session) \<and>
   paint_mouse_pointer (pointer_at 1 110 70) opened_session =
     Inr (opened_session,
          [CopyCursor 20, DrawIcon 2 100 50 21, DeleteObject 24, DeleteObject 25,
           DestroyCursor 21])"
  by (simp add: packet_eval)

section \<open>Properties of \<^verbatim>\<open>gdigrab_read_close\<close>\<close>

lemmas close_eval =
  gdigrab_read_close_def gdigrab_region_wnd_destroy_def opened_session_def
  half_opened_session_def

text \<open>
  C3 is not what the code does.  \<^verbatim>\<open>gdigrab_region_wnd_destroy\<close> clears the handle it
  destroys; \<^verbatim>\<open>gdigrab_read_close\<close> clears none of the others.  Closing the opened
  example session releases the source context and then deletes it, and leaves the state
  as it was, so that a second close gives back all three handles again.  The same
  happens when close follows an open that failed in
  \<^verbatim>\<open>gdigrab_region_wnd_init\<close>: the open has stored the handles in the session and
  released them on its way out.  (The handles live before the calls are listed first;
  \<open>stale_releases\<close> returns the calls that give back a handle no longer live.)
\<close>

theorem close_releases_again:
  "gdigrab_read_close opened_session =
     (0, opened_session, [ReleaseDC 0 1, DeleteDC 2, DeleteObject 3, DeleteDC 1]) \<and>
   gdigrab_read_close (fst (snd (gdigrab_read_close opened_session))) =
     (0, opened_session, [ReleaseDC 0 1, DeleteDC 2, DeleteObject 3, DeleteDC 1]) \<and>
   stale_releases [1, 2, 3]
     ([ReleaseDC 0 1, DeleteDC 2, DeleteObject 3, DeleteDC 1] @
      [ReleaseDC 0 1, DeleteDC 2, DeleteObject 3, DeleteDC 1]) =
     [DeleteDC 1, ReleaseDC 0 1, DeleteDC 2, DeleteObject 3, DeleteDC 1] \<and>
   gdigrab_read_header exact_double desktop_env_region_fails
       (example_session\<lparr>show_region := 1\<rparr>) globals0 =
     Inr (Inl EIO, half_opened_session, registry_800x600,
          [GetDC 0, CreateCompatibleDC 1, CreateDIBSection 2, SelectObject 2 3,
           CreateWindowEx, av_log ''Could not set window region'',
           DeleteObject 7, DeleteObject 8, DestroyWindow 6,
           ReleaseDC 0 1, DeleteDC 2, DeleteObject 3, DeleteDC 1]) \<and>
   gdigrab_read_close half_opened_session =
     (0, half_opened_session, [ReleaseDC 0 1, DeleteDC 2, DeleteObject 3, DeleteDC 1]) \<and>
   stale_releases [1, 2, 3, 6, 7, 8]
     ([DeleteObject 7, DeleteObject 8, DestroyWindow 6,
       ReleaseDC 0 1, DeleteDC 2, DeleteObject 3, DeleteDC 1] @
      [ReleaseDC 0 1, DeleteDC 2, DeleteObject 3, DeleteDC 1]) =
     [DeleteDC 1, ReleaseDC 0 1, DeleteDC 2, DeleteObject 3, DeleteDC 1]"
proof (intro conjI)
  show c: "gdigrab_read_close opened_session =
     (0, opened_session, [ReleaseDC 0 1, DeleteDC 2, DeleteObject 3, DeleteDC 1])"
    by (simp add: close_eval)
  show "gdigrab_read_close (fst (snd (gdigrab_read_close opened_session))) =
     (0, opened_session, [ReleaseDC 0 1, DeleteDC 2, DeleteObject 3, DeleteDC 1])"
    by (simp add: c)
  show "gdigrab_read_close half_opened_session =
     (0, half_opened_session, [ReleaseDC 0 1, DeleteDC 2, DeleteObject 3, DeleteDC 1])"
    by (simp add: close_eval)
  show "gdigrab_read_header exact_double desktop_env_region_fails
       (example_session\<lparr>show_region := 1\<rparr>) globals0 =
     Inr (Inl EIO, half_opened_session, registry_800x600,
          [GetDC 0, CreateCompatibleDC 1, CreateDIBSection 2, SelectObject 2 3,
           CreateWindowEx, av_log ''Could not set window region'',
           DeleteObject 7, DeleteObject 8, DestroyWindow 6,
           ReleaseDC 0 1, DeleteDC 2, DeleteObject 3, DeleteDC 1])"
    by (simp add: header_eval registry_eval)
qed simp_all

end
